theory Spec2Isabelle
  imports Complex_Main "HOL-Library.Sublist"
begin

section \<open>Values of the JavaScript runtime\<close>

text \<open>
  Strings are lists of code units; a \<^typ>\<open>char\<close> stands for a code unit in the range
  U+0000..U+00FF. Numbers are modelled by exact rationals (no rounding of doubles).
  Output on the console is a diagnostic and is not part of the model.
\<close>

text \<open>
  A value returned by \<open>JSON.parse\<close>; the keys of an object are distinct.
\<close>

datatype json =
    JNull
  | JBool bool
  | JNumber rat
  | JString string
  | JArray "json list"
  | JObject "(string \<times> json) list"

text \<open>
  Reading a property \<open>k\<close> of a value that is neither \<open>null\<close> nor \<open>undefined\<close>;
  \<open>None\<close> is \<open>undefined\<close>. Only the keys \<open>error\<close>, \<open>status\<close>, \<open>code\<close> and
  \<open>message\<close> are ever read, none of which is inherited from a prototype.
\<close>

fun getProp :: "json \<Rightarrow> string \<Rightarrow> json option" where
  "getProp (JObject kvs) k = map_of kvs k"
| "getProp _ k = None"

text \<open>Optional chaining \<open>v?.k\<close>.\<close>

fun optChain :: "json option \<Rightarrow> string \<Rightarrow> json option" where
  "optChain None k = None"
| "optChain (Some JNull) k = None"
| "optChain (Some v) k = getProp v k"

text \<open>What a \<open>throw\<close> carries: an \<open>Error\<close> object with its message, or anything else.\<close>

datatype thrown =
    Error string
  | NonError string
  | Undefined

text \<open>
  The built-ins that the code calls: \<open>JSON.parse\<close> (\<open>None\<close> when it throws
  SyntaxError), \<open>Math.random\<close> (its successive results, indexed by the number of
  earlier draws) and the conversion of a value that is not a string to a string.
\<close>

record runtime =
  JSON_parse :: "string \<Rightarrow> json option"
  Math_random :: "nat \<Rightarrow> rat"
  String_of :: "json \<Rightarrow> string"

section \<open>services/geminiService.ts: callApiWithRetry\<close>

text \<open>
  The wrapper's own observable steps, oldest first: \<open>Invoke\<close> is one \<open>await apiCall()\<close>,
  \<open>Sleep d\<close> is one \<open>setTimeout(resolve, d)\<close> that is awaited.
\<close>

datatype event = Invoke | Sleep rat

record 's world =
  trace :: "event list"
  draws :: nat
  ext :: 's

text \<open>
  Lines 47 to 58: the classification of a caught failure. The message of an \<open>Error\<close> is
  parsed as JSON; a message that does not parse leaves the flag false.
\<close>

definition isRateLimitError :: "runtime \<Rightarrow> thrown \<Rightarrow> bool" where
  "isRateLimitError rt error =
     (case error of
        Error msg \<Rightarrow>
          (case JSON_parse rt msg of
             None \<Rightarrow> False
           | Some errorBody \<Rightarrow>
               optChain (optChain (Some errorBody) ''error'') ''status''
                 = Some (JString ''RESOURCE_EXHAUSTED'')
               \<or> optChain (optChain (Some errorBody) ''error'') ''code''
                 = Some (JNumber 429))
      | _ \<Rightarrow> False)"

definition backoff :: "rat \<Rightarrow> nat \<Rightarrow> rat" where
  "backoff initialDelay i = initialDelay * 2 ^ i"

definition jitter :: "runtime \<Rightarrow> nat \<Rightarrow> rat" where
  "jitter rt k = Math_random rt k * 1000"

text \<open>
  The \<open>for\<close> loop of lines 42 to 69, entered with loop variable \<open>i\<close> and the current
  \<open>lastError\<close>. The wrapped operation acts on the external state \<open>ext\<close> and either
  fails (\<open>Inl\<close>) or returns a value (\<open>Inr\<close>).
\<close>

function callApiWithRetry_loop ::
  "runtime \<Rightarrow> ('s \<Rightarrow> (thrown + 'a) \<times> 's) \<Rightarrow> nat \<Rightarrow> rat \<Rightarrow> nat \<Rightarrow> thrown \<Rightarrow> 's world
     \<Rightarrow> (thrown + 'a) \<times> 's world" where
  "callApiWithRetry_loop rt apiCall maxRetries initialDelay i lastError w =
     (if i < maxRetries then
        (case apiCall (ext w) of
           (Inr v, s') \<Rightarrow> (Inr v, w\<lparr>trace := trace w @ [Invoke], ext := s'\<rparr>)
         | (Inl error, s') \<Rightarrow>
             if isRateLimitError rt error then
               callApiWithRetry_loop rt apiCall maxRetries initialDelay (i + 1) error
                 (w\<lparr>trace := trace w @ [Invoke, Sleep (backoff initialDelay i + jitter rt (draws w))],
                    draws := draws w + 1,
                    ext := s'\<rparr>)
             else (Inl error, w\<lparr>trace := trace w @ [Invoke], ext := s'\<rparr>))
      else (Inl lastError, w))"
  by pat_completeness auto
termination
  by (relation "measure (\<lambda>(rt, apiCall, maxRetries, initialDelay, i, lastError, w). maxRetries - i)")
     auto

definition callApiWithRetry ::
  "runtime \<Rightarrow> ('s \<Rightarrow> (thrown + 'a) \<times> 's) \<Rightarrow> nat \<Rightarrow> rat \<Rightarrow> 's world \<Rightarrow> (thrown + 'a) \<times> 's world" where
  "callApiWithRetry rt apiCall maxRetries initialDelay w =
     callApiWithRetry_loop rt apiCall maxRetries initialDelay 0 Undefined w"

text \<open>The default arguments \<open>maxRetries = 5\<close>, \<open>initialDelay = 1000\<close>, used by every caller.\<close>

definition callApiWithRetry_default ::
  "runtime \<Rightarrow> ('s \<Rightarrow> (thrown + 'a) \<times> 's) \<Rightarrow> 's world \<Rightarrow> (thrown + 'a) \<times> 's world" where
  "callApiWithRetry_default rt apiCall w = callApiWithRetry rt apiCall 5 1000 w"


text \<open>
  A helper for stating what the wrapper did: the external state after \<open>k\<close> invocations
  of the wrapped operation.
\<close>

primrec stateAfter :: "('s \<Rightarrow> (thrown + 'a) \<times> 's) \<Rightarrow> nat \<Rightarrow> 's \<Rightarrow> 's" where
  "stateAfter apiCall 0 s = s"
| "stateAfter apiCall (Suc k) s = stateAfter apiCall k (snd (apiCall s))"

text \<open>
  The steps of \<open>m\<close> failed attempts in a row, each followed by its wait, when the first
  of them has loop index \<open>i\<close> and \<open>k\<close> random numbers were drawn before.
\<close>

definition attempts :: "rat \<Rightarrow> runtime \<Rightarrow> nat \<Rightarrow> nat \<Rightarrow> nat \<Rightarrow> event list" where
  "attempts d rt i k m =
     concat (map (\<lambda>j. [Invoke, Sleep (backoff d (i + j) + jitter rt (k + j))]) [0..<m])"

section \<open>String operations of the runtime\<close>

abbreviation LF :: char where
  "LF \<equiv> CHR 0x0A"

text \<open>
  The characters that \<open>\s\<close> and \<open>trim\<close> treat as white space, within U+0000..U+00FF:
  tab, line feed, vertical tab, form feed, carriage return, space, no-break space.
\<close>

definition isWhiteSpace :: "char \<Rightarrow> bool" where
  "isWhiteSpace c \<longleftrightarrow>
     c = CHR 0x09 \<or> c = CHR 0x0A \<or> c = CHR 0x0B \<or> c = CHR 0x0C \<or> c = CHR 0x0D
     \<or> c = CHR 0x20 \<or> c = CHR 0xA0"

definition isLineTerminator :: "char \<Rightarrow> bool" where
  "isLineTerminator c \<longleftrightarrow> c = CHR 0x0A \<or> c = CHR 0x0D"

definition trim :: "string \<Rightarrow> string" where
  "trim s = rev (dropWhile isWhiteSpace (rev (dropWhile isWhiteSpace s)))"

text \<open>\<open>s.replace(/\s+/g, ' ')\<close>: every maximal run of white space becomes one space.\<close>

function collapseWhitespace :: "string \<Rightarrow> string" where
  "collapseWhitespace [] = []"
| "collapseWhitespace (c # cs) =
     (if isWhiteSpace c then CHR 0x20 # collapseWhitespace (dropWhile isWhiteSpace cs)
      else c # collapseWhitespace cs)"
  by pat_completeness auto
termination
  by (relation "measure length") (auto simp: less_Suc_eq_le length_dropWhile_le)

text \<open>\<open>toLowerCase\<close> on U+0000..U+00FF: A..Z and the capital letters U+00C0..U+00DE except U+00D7.\<close>

definition toLowerCase_char :: "char \<Rightarrow> char" where
  "toLowerCase_char c =
     (let n = (of_char c :: nat)
      in if (65 \<le> n \<and> n \<le> 90) \<or> (192 \<le> n \<and> n \<le> 222 \<and> n \<noteq> 215) then char_of (n + 32) else c)"

definition toLowerCase :: "string \<Rightarrow> string" where
  "toLowerCase s = map toLowerCase_char s"

text \<open>\<open>xs.join(sep)\<close> on an array of strings.\<close>

fun joinWith :: "string \<Rightarrow> string list \<Rightarrow> string" where
  "joinWith sep [] = []"
| "joinWith sep [x] = x"
| "joinWith sep (x # y # ys) = x @ sep @ joinWith sep (y # ys)"

text \<open>\<open>s.split(c)\<close> for a one-character separator; the result is never empty.\<close>

fun splitOn :: "char \<Rightarrow> string \<Rightarrow> string list" where
  "splitOn c [] = [[]]"
| "splitOn c (x # xs) =
     (if x = c then [] # splitOn c xs
      else (case splitOn c xs of
              p # ps \<Rightarrow> (x # p) # ps
            | [] \<Rightarrow> [[x]]))"

text \<open>\<open>xs[i]\<close>: \<open>undefined\<close> (\<open>None\<close>) beyond the end of the array.\<close>

definition at_index :: "'a list \<Rightarrow> nat \<Rightarrow> 'a option" where
  "at_index xs i = (if i < length xs then Some (xs ! i) else None)"

text \<open>A value that is a string or \<open>undefined\<close>: its truthiness and its text in a template literal.\<close>

definition truthy :: "string option \<Rightarrow> bool" where
  "truthy v = (case v of None \<Rightarrow> False | Some s \<Rightarrow> s \<noteq> [])"

definition templ :: "string option \<Rightarrow> string" where
  "templ v = (case v of None \<Rightarrow> ''undefined'' | Some s \<Rightarrow> s)"

text \<open>
  \<open>header.match(/:(.*?);/)?.[1]\<close>: the text between the first colon that is followed,
  on the same line, by a semicolon, and that semicolon.
\<close>

fun matchMimeType :: "string \<Rightarrow> string option" where
  "matchMimeType [] = None"
| "matchMimeType (c # cs) =
     (if c = CHR '':'' then
        (let g = takeWhile (\<lambda>x. x \<noteq> CHR '';'' \<and> \<not> isLineTerminator x) cs
         in case drop (length g) cs of
              x # _ \<Rightarrow> if x = CHR '';'' then Some g else matchMimeType cs
            | [] \<Rightarrow> matchMimeType cs)
      else matchMimeType cs)"


section \<open>The remote generation service\<close>

text \<open>
  A content part of a request or of a response: text, or inline image data with its
  \<open>data\<close> and its \<open>mimeType\<close> (either may be \<open>undefined\<close>).
\<close>

datatype part = Text string | InlineData "string option" "string option"

text \<open>
  A \<open>generateContent\<close> response: the \<open>text\<close> accessor and, for each candidate, the
  value of \<open>content?.parts\<close>. A response without candidates has the empty list.
\<close>

record response =
  resp_text :: "string option"
  candidates :: "part list option list"

text \<open>
  A video operation handle: \<open>done\<close>, and the value of
  \<open>response?.generatedVideos?.[0]?.video?.uri\<close>.
\<close>

record operation =
  op_name :: string
  op_done :: bool
  op_uri :: "string option"

record fetchResponse =
  ok :: bool
  blob :: string

datatype schema = sceneSchema | characterSchema

datatype Modality = IMAGE | TEXT

datatype request =
    GenerateContent_text string string string schema
  | GenerateContent_parts string "part list" "Modality list"
  | GenerateVideos string string "string option" string nat
  | GetVideosOperation operation

text \<open>
  What the code reaches over the network. Each remote endpoint answers the request it is
  given; its first argument is the number of requests issued before, so that the same
  request may be answered differently over time. \<open>fetch\<close> is indexed by the number of
  earlier downloads. \<open>createObjectURL\<close> stands for \<open>URL.createObjectURL\<close> on the
  downloaded blob, \<open>API_KEY\<close> for \<open>process.env.API_KEY\<close>.
\<close>

record services =
  generateContent :: "nat \<Rightarrow> request \<Rightarrow> thrown + response"
  generateVideos :: "nat \<Rightarrow> request \<Rightarrow> thrown + operation"
  getVideosOperation :: "nat \<Rightarrow> request \<Rightarrow> thrown + operation"
  fetch :: "nat \<Rightarrow> string \<Rightarrow> thrown + fetchResponse"
  createObjectURL :: "string \<Rightarrow> string"
  API_KEY :: string

text \<open>The external state: every request sent and every URL fetched, oldest first.\<close>

record remote =
  requests :: "request list"
  downloads :: "string list"

text \<open>The closure \<open>() => ai.method(request)\<close> handed to the wrapper.\<close>

definition remoteCall ::
  "(nat \<Rightarrow> request \<Rightarrow> thrown + 'a) \<Rightarrow> request \<Rightarrow> remote \<Rightarrow> (thrown + 'a) \<times> remote" where
  "remoteCall endpoint req s =
     (endpoint (length (requests s)) req, s\<lparr>requests := requests s @ [req]\<rparr>)"

section \<open>services/geminiService.ts: script analysis\<close>

definition scenePrompt :: "string \<Rightarrow> string" where
  "scenePrompt script =
     [LF] @ ''    Analyze the following film script. Your task is to break it down into distinct scenes and extract key metadata for each one.''
     @ [LF] @ ''    For each scene, identify the scene ID, location, time of day, emotional tone/mood, characters involved, and suggest a cinematic camera movement.''
     @ [LF] @ ''    Only include characters explicitly mentioned in the scene.''
     @ [LF] @ ''    Return the output as a JSON array of scene objects.''
     @ [LF]
     @ [LF] @ ''    SCRIPT:''
     @ [LF] @ ''    ---''
     @ [LF] @ ''    '' @ script
     @ [LF] @ ''    ---''
     @ [LF] @ ''  ''"

definition characterPrompt :: "string \<Rightarrow> string" where
  "characterPrompt script =
     [LF] @ ''        Analyze the provided script and identify all the main characters. For each character, create a detailed visual description that can be used for a text-to-image model.''
     @ [LF] @ ''        Focus on physical attributes, clothing style, estimated age, and any unique features mentioned or implied.''
     @ [LF] @ ''        Return the output as a JSON array of character objects.''
     @ [LF]
     @ [LF] @ ''        SCRIPT:''
     @ [LF] @ ''        ---''
     @ [LF] @ ''        '' @ script
     @ [LF] @ ''        ---''
     @ [LF] @ ''    ''"

definition scenesRequest :: "string \<Rightarrow> request" where
  "scenesRequest script =
     GenerateContent_text ''gemini-2.5-flash'' (scenePrompt script) ''application/json'' sceneSchema"

definition charactersRequest :: "string \<Rightarrow> request" where
  "charactersRequest script =
     GenerateContent_text ''gemini-2.5-flash'' (characterPrompt script) ''application/json'' characterSchema"

text \<open>
  \<open>response.text.trim()\<close> followed by \<open>JSON.parse\<close> in its own \<open>try\<close>; the parsed
  value is returned as it is (the cast to the record type checks nothing). Calling
  \<open>trim\<close> on an absent text raises a TypeError, whose message depends on the engine.
\<close>

definition parseResponseText :: "runtime \<Rightarrow> string \<Rightarrow> response \<Rightarrow> thrown + json" where
  "parseResponseText rt failure response =
     (case resp_text response of
        None \<Rightarrow> Inl (Error ''TypeError: response.text is undefined'')
      | Some t \<Rightarrow>
          (case JSON_parse rt (trim t) of
             Some v \<Rightarrow> Inr v
           | None \<Rightarrow> Inl (Error failure)))"

definition parseScriptToScenes ::
  "services \<Rightarrow> runtime \<Rightarrow> string \<Rightarrow> remote world \<Rightarrow> (thrown + json) \<times> remote world" where
  "parseScriptToScenes srv rt script w =
     (case callApiWithRetry_default rt (remoteCall (generateContent srv) (scenesRequest script)) w of
        (Inl e, w') \<Rightarrow> (Inl e, w')
      | (Inr response, w') \<Rightarrow>
          (parseResponseText rt ''The AI returned an invalid JSON format for scenes.'' response, w'))"

definition extractCharactersFromScript ::
  "services \<Rightarrow> runtime \<Rightarrow> string \<Rightarrow> remote world \<Rightarrow> (thrown + json) \<times> remote world" where
  "extractCharactersFromScript srv rt script w =
     (case callApiWithRetry_default rt (remoteCall (generateContent srv) (charactersRequest script)) w of
        (Inl e, w') \<Rightarrow> (Inl e, w')
      | (Inr response, w') \<Rightarrow>
          (parseResponseText rt ''The AI returned an invalid JSON format for characters.'' response, w'))"

section \<open>services/geminiService.ts: image generation\<close>

datatype aspectRatio = Ratio_16_9 | Ratio_1_1

fun aspectText :: "aspectRatio \<Rightarrow> string" where
  "aspectText Ratio_16_9 = ''16:9''"
| "aspectText Ratio_1_1 = ''1:1''"

text \<open>The \<open>for\<close> loop of lines 177 to 182: the first part that carries inline data.\<close>

fun firstInlineData :: "part list \<Rightarrow> (string option \<times> string option) option" where
  "firstInlineData [] = None"
| "firstInlineData (InlineData d m # ps) = Some (d, m)"
| "firstInlineData (Text t # ps) = firstInlineData ps"

definition imageRequest :: "string \<Rightarrow> aspectRatio \<Rightarrow> request" where
  "imageRequest prompt aspectRatio =
     GenerateContent_parts ''gemini-2.5-flash-image-preview''
       [Text (prompt @ ''. Aspect ratio: '' @ aspectText aspectRatio @ ''.'')]
       [IMAGE, TEXT]"

definition generateImageForPrompt ::
  "services \<Rightarrow> runtime \<Rightarrow> string \<Rightarrow> aspectRatio \<Rightarrow> remote world \<Rightarrow> (thrown + string) \<times> remote world" where
  "generateImageForPrompt srv rt prompt aspectRatio w =
     (case callApiWithRetry_default rt (remoteCall (generateContent srv) (imageRequest prompt aspectRatio)) w of
        (Inl e, w') \<Rightarrow> (Inl e, w')
      | (Inr response, w') \<Rightarrow>
          (case (case candidates response of [] \<Rightarrow> None | c # _ \<Rightarrow> c) of
             None \<Rightarrow> (Inl (Error ''Image generation failed to return an image.''), w')
           | Some parts \<Rightarrow>
               (case firstInlineData parts of
                  Some (d, m) \<Rightarrow> (Inr (''data:'' @ templ m @ '';base64,'' @ templ d), w')
                | None \<Rightarrow> (Inl (Error ''Image generation failed to return an image.''), w'))))"

text \<open>
  A call that passes one argument more than the function declares: the surplus argument
  is evaluated and dropped.
\<close>

definition js_surplus_arg :: "'a \<Rightarrow> 'b \<Rightarrow> 'a" where
  "js_surplus_arg f extra = f"

section \<open>services/geminiService.ts: video generation\<close>

definition generateVideosRequest :: "string \<Rightarrow> string \<Rightarrow> request" where
  "generateVideosRequest prompt startFrameBase64 =
     GenerateVideos ''veo-2.0-generate-001'' prompt
       (at_index (splitOn (CHR '','') startFrameBase64) 1) ''image/png'' 1"

text \<open>
  The \<open>while (!operation.done)\<close> loop of lines 204 to 207. It has no bound, so the
  result is \<open>None\<close> when the service never reports completion.
\<close>

partial_function (option) pollLoop ::
  "services \<Rightarrow> runtime \<Rightarrow> operation \<Rightarrow> remote world \<Rightarrow> ((thrown + operation) \<times> remote world) option" where
  "pollLoop srv rt operation w =
     (if op_done operation then Some (Inr operation, w)
      else
        (case callApiWithRetry_default rt
                (remoteCall (getVideosOperation srv) (GetVideosOperation operation))
                (w\<lparr>trace := trace w @ [Sleep 10000]\<rparr>) of
           (Inl e, w') \<Rightarrow> Some (Inl e, w')
         | (Inr operation', w') \<Rightarrow> pollLoop srv rt operation' w'))"

text \<open>
  Lines 209 to 220: the download of the finished video. Reading the body of a response
  that arrived is taken to succeed.
\<close>

definition downloadVideo ::
  "services \<Rightarrow> operation \<Rightarrow> remote world \<Rightarrow> (thrown + string) \<times> remote world" where
  "downloadVideo srv operation w =
     (if \<not> truthy (op_uri operation) then
        (Inl (Error ''Video generation completed, but no download link was found.''), w)
      else
        (let url = templ (op_uri operation) @ ''&key='' @ API_KEY srv;
             w' = w\<lparr>ext := (ext w)\<lparr>downloads := downloads (ext w) @ [url]\<rparr>\<rparr>
         in case fetch srv (length (downloads (ext w))) url of
              Inl e \<Rightarrow> (Inl e, w')
            | Inr videoResponse \<Rightarrow>
                if \<not> ok videoResponse then
                  (Inl (Error ''Failed to download the generated video file.''), w')
                else (Inr (createObjectURL srv (blob videoResponse)), w')))"

definition generateVideoForScene ::
  "services \<Rightarrow> runtime \<Rightarrow> string \<Rightarrow> string \<Rightarrow> remote world \<Rightarrow> ((thrown + string) \<times> remote world) option" where
  "generateVideoForScene srv rt prompt startFrameBase64 w =
     (case callApiWithRetry_default rt
             (remoteCall (generateVideos srv) (generateVideosRequest prompt startFrameBase64)) w of
        (Inl e, w') \<Rightarrow> Some (Inl e, w')
      | (Inr operation, w') \<Rightarrow>
          (case pollLoop srv rt operation w' of
             None \<Rightarrow> None
           | Some (Inl e, w'') \<Rightarrow> Some (Inl e, w'')
           | Some (Inr operation', w'') \<Rightarrow> Some (downloadVideo srv operation' w'')))"


text \<open>
  Runs that never end have no result to speak of, so the same loop is also given cut off
  after \<open>n\<close> re-queries: it yields the world reached by then and the loop's result
  if the loop has ended (\<open>None\<close> while the job is still being polled).
\<close>

fun pollLoop_upto ::
  "nat \<Rightarrow> services \<Rightarrow> runtime \<Rightarrow> operation \<Rightarrow> remote world \<Rightarrow> (thrown + operation) option \<times> remote world" where
  "pollLoop_upto 0 srv rt operation w =
     (if op_done operation then (Some (Inr operation), w) else (None, w))"
| "pollLoop_upto (Suc n) srv rt operation w =
     (if op_done operation then (Some (Inr operation), w)
      else
        (case callApiWithRetry_default rt
                (remoteCall (getVideosOperation srv) (GetVideosOperation operation))
                (w\<lparr>trace := trace w @ [Sleep 10000]\<rparr>) of
           (Inl e, w') \<Rightarrow> (Some (Inl e), w')
         | (Inr operation', w') \<Rightarrow> pollLoop_upto n srv rt operation' w'))"

definition generateVideoForScene_upto ::
  "nat \<Rightarrow> services \<Rightarrow> runtime \<Rightarrow> string \<Rightarrow> string \<Rightarrow> remote world \<Rightarrow> (thrown + string) option \<times> remote world" where
  "generateVideoForScene_upto n srv rt prompt startFrameBase64 w =
     (case callApiWithRetry_default rt
             (remoteCall (generateVideos srv) (generateVideosRequest prompt startFrameBase64)) w of
        (Inl e, w') \<Rightarrow> (Some (Inl e), w')
      | (Inr operation, w') \<Rightarrow>
          (case pollLoop_upto n srv rt operation w' of
             (None, w'') \<Rightarrow> (None, w'')
           | (Some (Inl e), w'') \<Rightarrow> (Some (Inl e), w'')
           | (Some (Inr operation'), w'') \<Rightarrow>
               (case downloadVideo srv operation' w'' of (r, w3) \<Rightarrow> (Some r, w3))))"

section \<open>services/geminiService.ts: getApiErrorMessage\<close>

fun jsTruthy :: "json \<Rightarrow> bool" where
  "jsTruthy JNull = False"
| "jsTruthy (JBool b) = b"
| "jsTruthy (JNumber n) = (n \<noteq> 0)"
| "jsTruthy (JString s) = (s \<noteq> [])"
| "jsTruthy (JArray xs) = True"
| "jsTruthy (JObject kvs) = True"

fun display :: "runtime \<Rightarrow> json \<Rightarrow> string" where
  "display rt (JString s) = s"
| "display rt v = String_of rt v"

definition unexpectedError :: string where
  "unexpectedError = ''An unexpected error occurred. Please try again.''"

text \<open>
  Reading \<open>errorBody.error\<close> of \<open>null\<close> raises inside the \<open>try\<close>, so the \<open>catch\<close>
  returns the raw message, as it does when the message is not JSON.
\<close>

definition getApiErrorMessage :: "runtime \<Rightarrow> thrown \<Rightarrow> string" where
  "getApiErrorMessage rt error =
     (case error of
        Error msg \<Rightarrow>
          (case JSON_parse rt msg of
             None \<Rightarrow> msg
           | Some JNull \<Rightarrow> msg
           | Some errorBody \<Rightarrow>
               (case getProp errorBody ''error'' of
                  None \<Rightarrow> unexpectedError
                | Some err \<Rightarrow>
                    if jsTruthy err then
                      (case getProp err ''message'' of
                         None \<Rightarrow> unexpectedError
                       | Some m \<Rightarrow> if jsTruthy m then display rt m else unexpectedError)
                    else unexpectedError))
      | _ \<Rightarrow> unexpectedError)"

section \<open>types.ts\<close>

record Scene =
  scene_id :: string
  location :: string
  time :: string
  mood :: string
  characters :: "string list"
  camera_movement :: string

record Character =
  char_name :: string
  char_description :: string
  char_imageUrl :: "string option"

record Frame =
  prompt :: string
  imageUrl :: "string option"

datatype VideoStatus = IDLE | GENERATING | DONE | ERROR

record VideoState =
  status :: VideoStatus
  url :: "string option"
  message :: string

record Style =
  style_id :: string
  style_name :: string
  style_imageUrl :: string
  promptModifier :: string

definition VIDEO_GENERATION_MESSAGES :: "string list" where
  "VIDEO_GENERATION_MESSAGES =
     [''Warming up the virtual cameras...'',
      ''Analyzing scene depth and parallax...'',
      ''Rendering cinematic motion vectors...'',
      ''Applying digital film grain...'',
      ''Interpolating keyframes for smooth motion...'',
      ''This can take a few minutes, good things come to those who wait.'',
      ''Finalizing color grade and composition...'',
      ''Almost there, adding the final touches...'']"

section \<open>components/SceneCard.tsx (the two-stage version)\<close>

text \<open>
  The file holds two versions of the component. The one modelled is the later one
  (lines 189 to 472), which generates the start frame first and the end frame from it.
  The message that rotates while a video is generated is display only and left out.
\<close>

text \<open>
  The component's state. \<open>videoLog\<close> is not a state variable of the source: it records
  every value passed to \<open>setVideoState\<close>, oldest first.
\<close>

record SceneCard_state =
  startFrame :: Frame
  endFrame :: Frame
  videoState :: VideoState
  isGeneratingStartFrame :: bool
  isGeneratingEndFrame :: bool
  card_error :: "string option"
  videoLog :: "VideoState list"

definition initialState :: SceneCard_state where
  "initialState =
     \<lparr>startFrame = \<lparr>prompt = [], imageUrl = None\<rparr>,
      endFrame = \<lparr>prompt = [], imageUrl = None\<rparr>,
      videoState = \<lparr>status = IDLE, url = None, message = []\<rparr>,
      isGeneratingStartFrame = False,
      isGeneratingEndFrame = False,
      card_error = None,
      videoLog = []\<rparr>"

definition setVideoState :: "VideoState \<Rightarrow> SceneCard_state \<Rightarrow> SceneCard_state" where
  "setVideoState v st = st\<lparr>videoState := v, videoLog := videoLog st @ [v]\<rparr>"

text \<open>The function mapped over \<open>scene.characters\<close> in lines 280 to 289.\<close>

definition characterDetail :: "Character list \<Rightarrow> string \<Rightarrow> string" where
  "characterDetail catalog charName =
     (case find (\<lambda>c. toLowerCase (char_name c) = toLowerCase charName) catalog of
        Some charData \<Rightarrow>
          char_name charData @ '' '' @
            (if truthy (char_imageUrl charData) then ''who looks like the provided image reference''
             else ''('' @ char_description charData @ '')'')
      | None \<Rightarrow> charName)"

definition characterDetails :: "Scene \<Rightarrow> Character list \<Rightarrow> string" where
  "characterDetails scene catalog = joinWith '', '' (map (characterDetail catalog) (characters scene))"

definition basePrompt :: "Scene \<Rightarrow> Character list \<Rightarrow> Style \<Rightarrow> string" where
  "basePrompt scene catalog selectedStyle =
     trim (collapseWhitespace
       (promptModifier selectedStyle @ ''. '' @ [LF]
        @ ''    Location: '' @ location scene @ ''. Time: '' @ time scene
        @ ''. Mood: '' @ mood scene @ ''. '' @ [LF]
        @ ''    Characters present: ''
        @ (if characterDetails scene catalog = [] then ''None'' else characterDetails scene catalog)
        @ ''.''))"

definition generatePrompts :: "Scene \<Rightarrow> Character list \<Rightarrow> Style \<Rightarrow> SceneCard_state \<Rightarrow> SceneCard_state" where
  "generatePrompts scene catalog selectedStyle st =
     st\<lparr>startFrame := (startFrame st)\<lparr>prompt :=
           basePrompt scene catalog selectedStyle
           @ '' Wide shot establishing the scene. Camera movement suggests: ''
           @ camera_movement scene @ ''.''\<rparr>,
        endFrame := (endFrame st)\<lparr>prompt :=
           basePrompt scene catalog selectedStyle
           @ '' Close-up shot focusing on a key character or object, showing emotional development.''\<rparr>\<rparr>"

definition getBase64Data :: "string \<Rightarrow> part" where
  "getBase64Data dataUrl =
     (let pieces = splitOn (CHR '','') dataUrl;
          header = (case pieces of h # _ \<Rightarrow> h | [] \<Rightarrow> []);
          mimeType = matchMimeType header
      in InlineData (at_index pieces 1) (Some (if truthy mimeType then templ mimeType else ''image/png'')))"

text \<open>
  The portraits of the catalog entries that the scene lists, as inline data. The filter
  keeps only entries with an image, so the \<open>None\<close> case below is never taken.
\<close>

definition characterImages :: "Scene \<Rightarrow> Character list \<Rightarrow> part list" where
  "characterImages scene catalog =
     (let sceneCharacterNames = map toLowerCase (characters scene);
          relevantCharacters =
            filter (\<lambda>c. truthy (char_imageUrl c) \<and> toLowerCase (char_name c) \<in> set sceneCharacterNames)
              catalog
      in map (\<lambda>char. getBase64Data (case char_imageUrl char of Some u \<Rightarrow> u | None \<Rightarrow> []))
           relevantCharacters)"

definition handleGenerateStartFrame ::
  "services \<Rightarrow> runtime \<Rightarrow> Scene \<Rightarrow> Character list \<Rightarrow> SceneCard_state \<times> remote world
     \<Rightarrow> (thrown + string) \<times> SceneCard_state \<times> remote world" where
  "handleGenerateStartFrame srv rt scene catalog sw =
     (case sw of (st, w) \<Rightarrow>
        (let st1 = st\<lparr>isGeneratingStartFrame := True, card_error := None\<rparr>;
             baseImages = characterImages scene catalog
         in case js_surplus_arg (generateImageForPrompt srv rt (prompt (startFrame st)) Ratio_16_9)
                   baseImages w of
              (Inr url', w') \<Rightarrow>
                (Inr url',
                 st1\<lparr>startFrame := (startFrame st1)\<lparr>imageUrl := Some url'\<rparr>,
                     isGeneratingStartFrame := False\<rparr>, w')
            | (Inl err, w') \<Rightarrow>
                (Inl err,
                 st1\<lparr>card_error := Some (''Failed to generate start frame: '' @ getApiErrorMessage rt err),
                     isGeneratingStartFrame := False\<rparr>, w')))"

definition handleGenerateEndFrame ::
  "services \<Rightarrow> runtime \<Rightarrow> Scene \<Rightarrow> Character list \<Rightarrow> string \<Rightarrow> SceneCard_state \<times> remote world
     \<Rightarrow> SceneCard_state \<times> remote world" where
  "handleGenerateEndFrame srv rt scene catalog startFrameImageUrl sw =
     (case sw of (st, w) \<Rightarrow>
        (let st1 = st\<lparr>isGeneratingEndFrame := True, card_error := None\<rparr>;
             startFrameImage = getBase64Data startFrameImageUrl;
             baseImages = startFrameImage # characterImages scene catalog
         in case js_surplus_arg (generateImageForPrompt srv rt (prompt (endFrame st)) Ratio_16_9)
                   baseImages w of
              (Inr url', w') \<Rightarrow>
                (st1\<lparr>endFrame := (endFrame st1)\<lparr>imageUrl := Some url'\<rparr>,
                     isGeneratingEndFrame := False\<rparr>, w')
            | (Inl err, w') \<Rightarrow>
                (st1\<lparr>card_error := Some (''Failed to generate end frame: '' @ getApiErrorMessage rt err),
                     isGeneratingEndFrame := False\<rparr>, w')))"

definition handleGenerateImages ::
  "services \<Rightarrow> runtime \<Rightarrow> Scene \<Rightarrow> Character list \<Rightarrow> SceneCard_state \<times> remote world
     \<Rightarrow> SceneCard_state \<times> remote world" where
  "handleGenerateImages srv rt scene catalog sw =
     (case handleGenerateStartFrame srv rt scene catalog sw of
        (Inr newStartFrameUrl, sw') \<Rightarrow>
          if newStartFrameUrl \<noteq> [] then handleGenerateEndFrame srv rt scene catalog newStartFrameUrl sw'
          else sw'
      | (Inl err, sw') \<Rightarrow> sw')"

definition videoPrompt :: "Scene \<Rightarrow> string" where
  "videoPrompt scene =
     ''Animate this scene with this camera movement: '' @ camera_movement scene @ ''. '' @ [LF]
     @ replicate 29 (CHR 0x20) @ ''The scene is at '' @ location scene @ '' during the '' @ time scene
     @ ''. The mood is '' @ mood scene @ ''.''"

text \<open>The value passed to \<open>setVideoState\<close> in line 384.\<close>

definition generating :: VideoState where
  "generating = \<lparr>status = GENERATING, url = None, message = ''Warming up the virtual cameras...''\<rparr>"

definition handleGenerateVideo ::
  "services \<Rightarrow> runtime \<Rightarrow> Scene \<Rightarrow> SceneCard_state \<times> remote world
     \<Rightarrow> (SceneCard_state \<times> remote world) option" where
  "handleGenerateVideo srv rt scene sw =
     (case sw of (st, w) \<Rightarrow>
        if \<not> truthy (imageUrl (startFrame st)) then
          Some (st\<lparr>card_error := Some ''Please generate the start frame image first.''\<rparr>, w)
        else
          (let st1 = (setVideoState
                        \<lparr>status = GENERATING, url = None, message = VIDEO_GENERATION_MESSAGES ! 0\<rparr> st)
                     \<lparr>card_error := None\<rparr>
           in case generateVideoForScene srv rt (videoPrompt scene) (templ (imageUrl (startFrame st))) w of
                None \<Rightarrow> None
              | Some (Inr videoUrl, w') \<Rightarrow>
                  Some (setVideoState \<lparr>status = DONE, url = Some videoUrl, message = []\<rparr> st1, w')
              | Some (Inl err, w') \<Rightarrow>
                  Some (setVideoState \<lparr>status = ERROR, url = None, message = []\<rparr>
                          (st1\<lparr>card_error := Some
                             ((case err of Error m \<Rightarrow> m | _ \<Rightarrow> ''An unknown error occurred.'')
                              @ '' This is an experimental feature and may fail. Please try again.'')\<rparr>),
                        w')))"

section \<open>App.tsx: handleAnalyzeScript\<close>

text \<open>
  The scenes and characters are kept as the parsed JSON, since nothing validates them.
  The two analyses are started together and awaited with \<open>Promise.all\<close>. How their
  requests and waits interleave is decided by the runtime, so \<open>Promise.all\<close> on the two
  started operations is a parameter here: from the world in which both are started it
  gives the world in which the handler resumes, with both results or with the first
  rejection.
\<close>

type_synonym 'a task = "remote world \<Rightarrow> (thrown + 'a) \<times> remote world"

type_synonym promiseAll = "json task \<Rightarrow> json task \<Rightarrow> (json \<times> json) task"

record App_state =
  script :: string
  scenes :: json
  app_characters :: json
  selectedStyle :: "Style option"
  isLoading :: bool
  app_error :: "string option"

definition handleAnalyzeScript ::
  "services \<Rightarrow> runtime \<Rightarrow> promiseAll \<Rightarrow> App_state \<times> remote world \<Rightarrow> App_state \<times> remote world" where
  "handleAnalyzeScript srv rt Promise_all sw =
     (case sw of (st, w) \<Rightarrow>
        if trim (script st) = [] then (st\<lparr>app_error := Some ''Script cannot be empty.''\<rparr>, w)
        else
          (let st1 = st\<lparr>isLoading := True, app_error := None, scenes := JArray [],
                        app_characters := JArray [], selectedStyle := None\<rparr>
           in case Promise_all (parseScriptToScenes srv rt (script st))
                     (extractCharactersFromScript srv rt (script st)) w of
                (Inr (parsedScenes, extractedCharacters), w') \<Rightarrow>
                  (st1\<lparr>scenes := parsedScenes, app_characters := extractedCharacters,
                       isLoading := False\<rparr>, w')
              | (Inl err, w') \<Rightarrow>
                  (st1\<lparr>app_error := Some (''Failed to analyze script: '' @ getApiErrorMessage rt err),
                       isLoading := False\<rparr>, w')))"

section \<open>Predicates used in the statements\<close>

text \<open>
  A string in which every white-space character is a space and no two white-space
  characters are adjacent.
\<close>

fun singleSpaced :: "string \<Rightarrow> bool" where
  "singleSpaced [] = True"
| "singleSpaced [c] = (isWhiteSpace c \<longrightarrow> c = CHR 0x20)"
| "singleSpaced (c # d # cs) =
     ((isWhiteSpace c \<longrightarrow> c = CHR 0x20 \<and> \<not> isWhiteSpace d) \<and> singleSpaced (d # cs))"

text \<open>The invariant of the video state: a URL exactly when done, none after an error.\<close>

definition videoInvariant :: "VideoState \<Rightarrow> bool" where
  "videoInvariant v \<longleftrightarrow> (status v = DONE \<longrightarrow> url v \<noteq> None) \<and> (status v = ERROR \<longrightarrow> url v = None)"

section \<open>Example inputs\<close>

text \<open>
  A runtime whose \<open>JSON.parse\<close> is given on the strings that the examples parse; every
  other string used below is not JSON.
\<close>

definition rateLimitMessage :: string where
  \<open>rateLimitMessage = ''{"error":{"code":429,"status":"RESOURCE_EXHAUSTED"}}''\<close>

definition exampleRuntime :: runtime where
  "exampleRuntime =
     \<lparr>JSON_parse = (\<lambda>s.
        if s = rateLimitMessage then
          Some (JObject [(''error'', JObject [(''code'', JNumber 429),
                                             (''status'', JString ''RESOURCE_EXHAUSTED'')])])
        else if s = ''[]'' then Some (JArray [])
        else None),
      Math_random = (\<lambda>k. 1 / 2),
      String_of = (\<lambda>v. ''[object Object]'')\<rparr>"

definition alwaysRateLimited :: "nat \<Rightarrow> (thrown + unit) \<times> nat" where
  "alwaysRateLimited = (\<lambda>s. (Inl (Error rateLimitMessage), Suc s))"

definition alwaysFatal :: "nat \<Rightarrow> (thrown + unit) \<times> nat" where
  "alwaysFatal = (\<lambda>s. (Inl (Error ''Network down''), Suc s))"

definition emptyWorld :: "'s \<Rightarrow> 's world" where
  "emptyWorld s = \<lparr>trace = [], draws = 0, ext = s\<rparr>"


definition exampleStyle :: Style where
  "exampleStyle = \<lparr>style_id = ''x'', style_name = ''X'', style_imageUrl = [], promptModifier = ''X''\<rparr>"

definition cafeScene :: "string list \<Rightarrow> Scene" where
  "cafeScene names =
     \<lparr>scene_id = ''S01'', location = ''Cafe'', time = ''Morning'', mood = ''Tense'',
      characters = names, camera_movement = ''Slow dolly-in''\<rparr>"

definition aliceWithPortrait :: Character where
  "aliceWithPortrait =
     \<lparr>char_name = ''alice'', char_description = ''tall, red coat'',
      char_imageUrl = Some ''data:image/jpeg;base64,QUJD''\<rparr>"

definition aliceNoPortrait :: Character where
  "aliceNoPortrait =
     \<lparr>char_name = ''alice'', char_description = ''tall, red coat'', char_imageUrl = None\<rparr>"

definition noRequests :: remote where
  "noRequests = \<lparr>requests = [], downloads = []\<rparr>"

definition imageReply :: response where
  "imageReply =
     \<lparr>resp_text = None,
      candidates = [Some [Text ''Here is the frame.'', InlineData (Some ''AAAA'') (Some ''image/png'')]]\<rparr>"

definition notJsonReply :: response where
  "notJsonReply = \<lparr>resp_text = Some ''Sorry, I cannot help with that.'', candidates = []\<rparr>"

text \<open>
  Services for the examples: \<open>generateContent\<close> answers a multimodal request with an
  image and a text request with prose that is not JSON; the video job reports completion
  at the second re-query (the third request in all).
\<close>

definition exampleServices :: "string option \<Rightarrow> bool \<Rightarrow> services" where
  "exampleServices uri fetchOk =
     \<lparr>generateContent = (\<lambda>k req.
        case req of GenerateContent_parts m ps ms \<Rightarrow> Inr imageReply | _ \<Rightarrow> Inr notJsonReply),
      generateVideos = (\<lambda>k req. Inr \<lparr>op_name = ''operations/7'', op_done = False, op_uri = None\<rparr>),
      getVideosOperation = (\<lambda>k req.
        if k < 2 then Inr \<lparr>op_name = ''operations/7'', op_done = False, op_uri = None\<rparr>
        else Inr \<lparr>op_name = ''operations/7'', op_done = True, op_uri = uri\<rparr>),
      fetch = (\<lambda>k u. Inr \<lparr>ok = fetchOk, blob = ''VIDEO''\<rparr>),
      createObjectURL = (\<lambda>b. ''blob:'' @ b),
      API_KEY = ''KEY''\<rparr>"

text \<open>A service whose \<open>generateContent\<close> always fails with a failure that is not retried.\<close>

definition failingServices :: services where
  "failingServices = (exampleServices None True)\<lparr>generateContent := (\<lambda>k req. Inl (Error ''Network down''))\<rparr>"

text \<open>
  A stand-in for \<open>Promise.all\<close> in the examples: the first operation settles before
  the second is served.
\<close>

definition settleInOrder :: promiseAll where
  "settleInOrder first second w =
     (case first w of
        (Inl e, w') \<Rightarrow> (Inl e, snd (second w'))
      | (Inr x, w') \<Rightarrow>
          (case second w' of
             (Inl e, w'') \<Rightarrow> (Inl e, w'')
           | (Inr y, w'') \<Rightarrow> (Inr (x, y), w'')))"

definition blankApp :: App_state where
  "blankApp =
     \<lparr>script = [CHR 0x20, CHR 0x09, LF], scenes = JArray [], app_characters = JArray [],
      selectedStyle = None, isLoading = False, app_error = None\<rparr>"

definition readyState :: SceneCard_state where
  "readyState =
     initialState\<lparr>startFrame := \<lparr>prompt = ''A cafe.'', imageUrl = Some ''data:image/jpeg;base64,AAAA''\<rparr>\<rparr>"

definition videoUri :: string where
  "videoUri = ''https://example.test/v/7?alt=media''"

definition pending :: operation where
  "pending = \<lparr>op_name = ''operations/7'', op_done = False, op_uri = None\<rparr>"

definition completed :: "string option \<Rightarrow> operation" where
  "completed uri = \<lparr>op_name = ''operations/7'', op_done = True, op_uri = uri\<rparr>"

section \<open>The retry wrapper\<close>

declare callApiWithRetry_loop.simps [simp del]

lemma loop_exit: "\<not> i < n \<Longrightarrow> callApiWithRetry_loop rt apiCall n d i le w = (Inl le, w)"
  by (subst callApiWithRetry_loop.simps) simp

lemma loop_fatal:
  "i < n \<Longrightarrow> apiCall (ext w) = (Inl e, s') \<Longrightarrow> \<not> isRateLimitError rt e \<Longrightarrow>
   callApiWithRetry_loop rt apiCall n d i le w = (Inl e, w\<lparr>trace := trace w @ [Invoke], ext := s'\<rparr>)"
  by (subst callApiWithRetry_loop.simps) simp

lemma loop_ok:
  "i < n \<Longrightarrow> apiCall (ext w) = (Inr v, s') \<Longrightarrow>
   callApiWithRetry_loop rt apiCall n d i le w = (Inr v, w\<lparr>trace := trace w @ [Invoke], ext := s'\<rparr>)"
  by (subst callApiWithRetry_loop.simps) simp

lemma loop_retry:
  "i < n \<Longrightarrow> apiCall (ext w) = (Inl e, s') \<Longrightarrow> isRateLimitError rt e \<Longrightarrow>
   callApiWithRetry_loop rt apiCall n d i le w =
   callApiWithRetry_loop rt apiCall n d (Suc i) e
     (w\<lparr>trace := trace w @ [Invoke, Sleep (backoff d i + jitter rt (draws w))],
        draws := Suc (draws w), ext := s'\<rparr>)"
  by (subst callApiWithRetry_loop.simps) simp

lemma attempts_Suc:
  "attempts d rt i k (Suc m) =
     [Invoke, Sleep (backoff d i + jitter rt k)] @ attempts d rt (Suc i) (Suc k) m"
  unfolding attempts_def
  by (simp only: upt_conv_Cons[of 0 "Suc m"] map_Suc_upt[symmetric] list.map concat.simps map_map o_def)
     simp

lemma loop_exhaust:
  assumes all: "\<forall>s. \<exists>e s'. apiCall s = (Inl e, s') \<and> isRateLimitError rt e"
  shows "n - i = Suc m \<Longrightarrow>
    callApiWithRetry_loop rt apiCall n d i le w =
      (fst (apiCall (stateAfter apiCall m (ext w))),
       w\<lparr>trace := trace w @ attempts d rt i (draws w) (Suc m),
          draws := draws w + Suc m,
          ext := stateAfter apiCall (Suc m) (ext w)\<rparr>)"
proof (induction m arbitrary: i le w)
  case 0
  from all obtain e s' where c: "apiCall (ext w) = (Inl e, s')" and rl: "isRateLimitError rt e" by blast
  from 0 have lt: "i < n" and fin: "\<not> Suc i < n" by auto
  show ?case
    by (simp add: loop_retry[where apiCall=apiCall and w=w and le=le and d=d, OF lt c rl] loop_exit[OF fin] c attempts_def)
next
  case (Suc m)
  from all obtain e s' where c: "apiCall (ext w) = (Inl e, s')" and rl: "isRateLimitError rt e" by blast
  from Suc.prems have lt: "i < n" and rest: "n - Suc i = Suc m" by auto
  show ?case
    apply (simp only: loop_retry[where apiCall=apiCall and w=w and le=le and d=d, OF lt c rl] Suc.IH[OF rest])
    apply (simp add: c attempts_Suc[of d rt i "draws w" "Suc m"])
    done
qed

lemma stateAfter_fails:
  assumes all: "\<forall>s. \<exists>e s'. apiCall s = (Inl e, s') \<and> isRateLimitError rt e"
  shows "\<exists>e. fst (apiCall s) = Inl e \<and> isRateLimitError rt e"
  using all by (metis fst_conv)

lemma backoff_mono: "0 \<le> d \<Longrightarrow> i \<le> j \<Longrightarrow> backoff d i \<le> backoff d j"
  unfolding backoff_def by (simp add: mult_left_mono power_increasing)

lemma jitter_range:
  "0 \<le> Math_random rt k \<Longrightarrow> Math_random rt k < 1 \<Longrightarrow> 0 \<le> jitter rt k \<and> jitter rt k < 1000"
  unfolding jitter_def by simp

text \<open>
  Claim C1. An operation that fails at every invocation with a rate-limit failure is
  invoked five times by \<open>callApiWithRetry\<close> with \<open>maxRetries = 5\<close> and
  \<open>initialDelay = 1000\<close>. After the attempt with index \<open>i\<close> the wrapper waits
  \<open>1000 * 2 ^ i\<close> milliseconds plus a jitter in \<open>[0, 1000)\<close> (also after the fifth
  attempt), the delays without the jitter never decrease, and the failure of the fifth
  invocation is the one propagated.
\<close>

theorem callApiWithRetry_rate_limited:
  assumes fails: "\<forall>s. \<exists>e s'. apiCall s = (Inl e, s') \<and> isRateLimitError rt e"
    and rnd: "\<forall>k. 0 \<le> Math_random rt k \<and> Math_random rt k < 1"
  shows "\<exists>e w'. callApiWithRetry rt apiCall 5 1000 w = (Inl e, w')
           \<and> isRateLimitError rt e
           \<and> fst (apiCall (stateAfter apiCall 4 (ext w))) = Inl e
           \<and> ext w' = stateAfter apiCall 5 (ext w)
           \<and> trace w' = trace w @
               [Invoke, Sleep (1000 + jitter rt (draws w)),
                Invoke, Sleep (2000 + jitter rt (draws w + 1)),
                Invoke, Sleep (4000 + jitter rt (draws w + 2)),
                Invoke, Sleep (8000 + jitter rt (draws w + 3)),
                Invoke, Sleep (16000 + jitter rt (draws w + 4))]
           \<and> (\<forall>k. 0 \<le> jitter rt k \<and> jitter rt k < 1000)
           \<and> map (backoff 1000) [0, 1, 2, 3, 4] = [1000, 2000, 4000, 8000, 16000]
           \<and> (\<forall>i j. i \<le> j \<longrightarrow> backoff 1000 i \<le> backoff 1000 j)"
proof -
  obtain e where e: "fst (apiCall (stateAfter apiCall 4 (ext w))) = Inl e" and rl: "isRateLimitError rt e"
    using stateAfter_fails[OF fails] by blast
  have run: "callApiWithRetry rt apiCall 5 1000 w =
      (Inl e, w\<lparr>trace := trace w @ attempts 1000 rt 0 (draws w) 5,
                draws := draws w + 5,
                ext := stateAfter apiCall 5 (ext w)\<rparr>)"
    unfolding callApiWithRetry_def
    using loop_exhaust[OF fails, of 5 0 4 1000 Undefined w] e by (simp add: eval_nat_numeral)
  have tr: "attempts 1000 rt 0 k 5 =
      [Invoke, Sleep (1000 + jitter rt k),
       Invoke, Sleep (2000 + jitter rt (k + 1)),
       Invoke, Sleep (4000 + jitter rt (k + 2)),
       Invoke, Sleep (8000 + jitter rt (k + 3)),
       Invoke, Sleep (16000 + jitter rt (k + 4))]" for k
    by (simp add: attempts_def backoff_def upt_conv_Cons eval_nat_numeral)
  have jit: "\<forall>k. 0 \<le> jitter rt k \<and> jitter rt k < 1000"
    using rnd jitter_range by blast
  have bo: "map (backoff 1000) [0, 1, 2, 3, 4] = [1000, 2000, 4000, 8000, 16000]"
    by (simp add: backoff_def)
  have mono: "\<forall>i j. i \<le> j \<longrightarrow> backoff 1000 i \<le> backoff 1000 j"
    using backoff_mono[of 1000] by simp
  show ?thesis
    using run rl e tr jit bo mono by simp
qed

lemma example_classified: "isRateLimitError exampleRuntime (Error rateLimitMessage)"
  by (simp add: isRateLimitError_def exampleRuntime_def)

lemma example_fatal: "\<not> isRateLimitError exampleRuntime (Error ''Network down'')"
  by (simp add: isRateLimitError_def exampleRuntime_def rateLimitMessage_def)

theorem callApiWithRetry_rate_limited_witness:
  "\<exists>e w'. callApiWithRetry exampleRuntime alwaysRateLimited 5 1000 (emptyWorld 0) = (Inl e, w')
      \<and> e = Error rateLimitMessage
      \<and> ext w' = 5
      \<and> trace w' = [Invoke, Sleep 1500, Invoke, Sleep 2500, Invoke, Sleep 4500,
                     Invoke, Sleep 8500, Invoke, Sleep 16500]"
proof -
  have h1: "\<forall>s. \<exists>e s'. alwaysRateLimited s = (Inl e, s') \<and> isRateLimitError exampleRuntime e"
    by (simp add: alwaysRateLimited_def example_classified)
  have h2: "\<forall>k. 0 \<le> Math_random exampleRuntime k \<and> Math_random exampleRuntime k < 1"
    by (simp add: exampleRuntime_def)
  have j: "jitter exampleRuntime k = 500" for k
    by (simp add: jitter_def exampleRuntime_def)
  show ?thesis
    using callApiWithRetry_rate_limited[OF h1 h2, of "emptyWorld 0"]
    by (auto simp: j emptyWorld_def alwaysRateLimited_def eval_nat_numeral)
qed

text \<open>
  Claim C2. When the first invocation fails and the failure is not an \<open>Error\<close>, or its
  message is not JSON, or the parsed message has neither \<open>error.status\<close>
  \<open>RESOURCE_EXHAUSTED\<close> nor \<open>error.code\<close> 429, the wrapper propagates that failure at
  once: the operation was invoked exactly once, nothing was waited for, and no random
  number was drawn.
\<close>

theorem callApiWithRetry_fatal:
  assumes call: "apiCall (ext w) = (Inl e, s')"
    and fatal: "(\<forall>msg. e \<noteq> Error msg)
        \<or> (\<exists>msg. e = Error msg \<and> JSON_parse rt msg = None)
        \<or> (\<exists>msg body. e = Error msg \<and> JSON_parse rt msg = Some body
              \<and> optChain (optChain (Some body) ''error'') ''status'' \<noteq> Some (JString ''RESOURCE_EXHAUSTED'')
              \<and> optChain (optChain (Some body) ''error'') ''code'' \<noteq> Some (JNumber 429))"
    and pos: "0 < maxRetries"
  shows "callApiWithRetry rt apiCall maxRetries initialDelay w =
           (Inl e, w\<lparr>trace := trace w @ [Invoke], ext := s'\<rparr>)"
proof -
  have "\<not> isRateLimitError rt e"
    using fatal by (auto simp: isRateLimitError_def split: thrown.splits option.splits)
  then show ?thesis
    unfolding callApiWithRetry_def
    using loop_fatal[where apiCall=apiCall and w=w, OF pos call] by simp
qed

theorem callApiWithRetry_fatal_witness:
  "callApiWithRetry exampleRuntime alwaysFatal 5 1000 (emptyWorld 0) =
     (Inl (Error ''Network down''), \<lparr>trace = [Invoke], draws = 0, ext = 1\<rparr>)"
proof -
  have c: "alwaysFatal (ext (emptyWorld 0)) = (Inl (Error ''Network down''), 1)"
    by (simp add: alwaysFatal_def emptyWorld_def)
  have f: "(\<forall>msg. Error ''Network down'' \<noteq> Error msg)
        \<or> (\<exists>msg. Error ''Network down'' = Error msg \<and> JSON_parse exampleRuntime msg = None)
        \<or> (\<exists>msg body. Error ''Network down'' = Error msg \<and> JSON_parse exampleRuntime msg = Some body
              \<and> optChain (optChain (Some body) ''error'') ''status'' \<noteq> Some (JString ''RESOURCE_EXHAUSTED'')
              \<and> optChain (optChain (Some body) ''error'') ''code'' \<noteq> Some (JNumber 429))"
    by (simp add: exampleRuntime_def rateLimitMessage_def)
  show ?thesis
    using callApiWithRetry_fatal[where apiCall=alwaysFatal and w="emptyWorld 0" and maxRetries=5 and initialDelay=1000, OF c f]
    by (simp add: emptyWorld_def)
qed

section \<open>Prompt composition\<close>

lemma dropWhile_append_keep:
  "ys = [] \<or> \<not> P (hd ys) \<Longrightarrow> dropWhile P (xs @ ys) = dropWhile P xs @ ys"
  by (induction xs) (cases ys; auto)+

lemma collapseWhitespace_append:
  "ys = [] \<or> \<not> isWhiteSpace (hd ys) \<Longrightarrow>
   collapseWhitespace (xs @ ys) = collapseWhitespace xs @ collapseWhitespace ys"
proof (induction xs rule: collapseWhitespace.induct)
  case 1
  then show ?case by simp
next
  case (2 c cs)
  then show ?case by (simp add: dropWhile_append_keep)
qed

lemma dropWhile_head: "dropWhile P xs = [] \<or> \<not> P (hd (dropWhile P xs))"
  by (metis hd_dropWhile)

lemma collapse_dropWhile_head:
  "collapseWhitespace (dropWhile isWhiteSpace cs) = []
   \<or> (\<exists>x r. collapseWhitespace (dropWhile isWhiteSpace cs) = x # r \<and> \<not> isWhiteSpace x)"
proof (cases "dropWhile isWhiteSpace cs")
  case Nil
  then show ?thesis by (simp del: dropWhile_eq_Nil_conv)
next
  case (Cons x r)
  with dropWhile_head[of isWhiteSpace cs] have "\<not> isWhiteSpace x" by simp
  with Cons show ?thesis by (simp del: dropWhile_eq_Nil_conv)
qed

lemma singleSpaced_collapse: "singleSpaced (collapseWhitespace s)"
proof (induction s rule: collapseWhitespace.induct)
  case 1
  then show ?case by simp
next
  case (2 c cs)
  show ?case
  proof (cases "isWhiteSpace c")
    case True
    from collapse_dropWhile_head[of cs] show ?thesis
    proof
      assume "collapseWhitespace (dropWhile isWhiteSpace cs) = []"
      with True show ?thesis by simp
    next
      assume "\<exists>x r. collapseWhitespace (dropWhile isWhiteSpace cs) = x # r \<and> \<not> isWhiteSpace x"
      then obtain x r where e: "collapseWhitespace (dropWhile isWhiteSpace cs) = x # r"
        and nx: "\<not> isWhiteSpace x" by blast
      from 2(1)[OF True] e have "singleSpaced (x # r)" by simp
      with True e nx show ?thesis by simp
    qed
  next
    case False
    with 2(2) have ih: "singleSpaced (collapseWhitespace cs)" by simp
    show ?thesis
    proof (cases "collapseWhitespace cs")
      case Nil
      with False show ?thesis by simp
    next
      case (Cons d ds)
      with False ih show ?thesis by simp
    qed
  qed
qed

lemma singleSpaced_tl: "singleSpaced (x # xs) \<Longrightarrow> singleSpaced xs"
  by (cases xs) auto

lemma singleSpaced_append_right: "singleSpaced (xs @ ys) \<Longrightarrow> singleSpaced ys"
  by (induction xs) (auto dest: singleSpaced_tl)

lemma singleSpaced_append_left: "singleSpaced (xs @ ys) \<Longrightarrow> singleSpaced xs"
proof (induction xs rule: singleSpaced.induct)
  case 1
  then show ?case by simp
next
  case (2 c)
  then show ?case by (cases ys) auto
next
  case (3 c d cs)
  then show ?case by auto
qed

lemma trim_infix: "\<exists>a b. s = a @ trim s @ b"
proof -
  let ?t = "dropWhile isWhiteSpace s"
  have "s = takeWhile isWhiteSpace s @ ?t" by simp
  moreover have "?t = rev (dropWhile isWhiteSpace (rev ?t)) @ rev (takeWhile isWhiteSpace (rev ?t))"
    by (metis rev_append rev_rev_ident takeWhile_dropWhile_id)
  ultimately have "s = takeWhile isWhiteSpace s @ trim s @ rev (takeWhile isWhiteSpace (rev ?t))"
    unfolding trim_def by simp
  then show ?thesis by blast
qed

lemma singleSpaced_trim: "singleSpaced s \<Longrightarrow> singleSpaced (trim s)"
proof -
  assume s: "singleSpaced s"
  obtain a b where ab: "s = a @ trim s @ b" using trim_infix by blast
  from s ab have "singleSpaced (trim s @ b)" using singleSpaced_append_right by metis
  then show ?thesis using singleSpaced_append_left by blast
qed

lemma trim_keeps_suffix:
  assumes "t \<noteq> []" "\<not> isWhiteSpace (hd t)" "\<not> isWhiteSpace (last t)"
  shows "trim (y @ t) = dropWhile isWhiteSpace y @ t"
proof -
  have a: "dropWhile isWhiteSpace (y @ t) = dropWhile isWhiteSpace y @ t"
    using assms by (simp add: dropWhile_append_keep)
  obtain l r where lr: "rev t = l # r" using assms(1) by (cases "rev t") auto
  then have "l = last t" using assms(1) by (metis hd_rev list.sel(1))
  then have "dropWhile isWhiteSpace ((l # r) @ rev (dropWhile isWhiteSpace y)) =
      (l # r) @ rev (dropWhile isWhiteSpace y)"
    using assms(3) by simp
  then have b: "dropWhile isWhiteSpace (rev t @ rev (dropWhile isWhiteSpace y)) =
      rev t @ rev (dropWhile isWhiteSpace y)"
    by (simp only: lr)
  show ?thesis unfolding trim_def a by (simp add: b)
qed

lemma tail_literal: "collapseWhitespace ''Characters present: None.'' = ''Characters present: None.''"
  by (simp add: isWhiteSpace_def)

text \<open>
  Claim C8. When the joined character details of a scene are empty (in particular when
  the scene lists no characters), the base prompt ends with the literal
  \<open>Characters present: None.\<close>; and every base prompt has its white space collapsed:
  each white-space character in it is a single space between two other characters.
\<close>

theorem basePrompt_no_characters:
  assumes "characterDetails scene catalog = []"
  shows "suffix ''Characters present: None.'' (basePrompt scene catalog style)
         \<and> singleSpaced (basePrompt scene catalog style)"
proof -
  let ?T = "''Characters present: None.''"
  let ?X = "promptModifier style @ ''. '' @ [LF]
        @ ''    Location: '' @ location scene @ ''. Time: '' @ time scene
        @ ''. Mood: '' @ mood scene @ ''. '' @ [LF] @ ''    ''"
  have raw: "basePrompt scene catalog style = trim (collapseWhitespace (?X @ ?T))"
    using assms by (simp add: basePrompt_def)
  have "collapseWhitespace (?X @ ?T) = collapseWhitespace ?X @ ?T"
    using collapseWhitespace_append[of ?T ?X] tail_literal by (simp add: isWhiteSpace_def)
  then have "basePrompt scene catalog style = dropWhile isWhiteSpace (collapseWhitespace ?X) @ ?T"
    using raw trim_keeps_suffix[of ?T "collapseWhitespace ?X"] by (simp add: isWhiteSpace_def)
  then have 1: "suffix ?T (basePrompt scene catalog style)"
    unfolding suffix_def by blast
  have 2: "singleSpaced (basePrompt scene catalog style)"
    unfolding basePrompt_def by (rule singleSpaced_trim[OF singleSpaced_collapse])
  from 1 2 show ?thesis by blast
qed

lemma example_prompt:
  "basePrompt (cafeScene []) [] exampleStyle =
     ''X. Location: Cafe. Time: Morning. Mood: Tense. Characters present: None.''"
  by (simp add: basePrompt_def characterDetails_def cafeScene_def exampleStyle_def trim_def isWhiteSpace_def)

theorem basePrompt_no_characters_witness:
  "suffix ''Characters present: None.'' (basePrompt (cafeScene []) [] exampleStyle)
   \<and> singleSpaced (basePrompt (cafeScene []) [] exampleStyle)"
proof -
  have h: "characterDetails (cafeScene []) [] = []"
    by (simp add: characterDetails_def cafeScene_def)
  show ?thesis using basePrompt_no_characters[OF h] by simp
qed

lemma find_first_match:
  "find P xs = Some c \<Longrightarrow> \<exists>pre post. xs = pre @ c # post \<and> P c \<and> (\<forall>x \<in> set pre. \<not> P x)"
proof (induction xs)
  case Nil
  then show ?case by simp
next
  case (Cons a xs)
  show ?case
  proof (cases "P a")
    case True
    with Cons.prems have "a = c" by simp
    with True have "a # xs = [] @ c # xs \<and> P c \<and> (\<forall>x \<in> set []. \<not> P x)" by simp
    then show ?thesis by blast
  next
    case False
    with Cons.prems have "find P xs = Some c" by simp
    from Cons.IH[OF this] obtain pre post where
      "xs = pre @ c # post" "P c" "\<forall>x \<in> set pre. \<not> P x" by blast
    with False have "a # xs = (a # pre) @ c # post \<and> P c \<and> (\<forall>x \<in> set (a # pre). \<not> P x)" by simp
    then show ?thesis by blast
  qed
qed

lemma basePrompt_tail:
  "basePrompt scene catalog style =
     dropWhile isWhiteSpace
       (collapseWhitespace
          (promptModifier style @ ''. '' @ [LF]
           @ ''    Location: '' @ location scene @ ''. Time: '' @ time scene
           @ ''. Mood: '' @ mood scene @ ''. '' @ [LF] @ ''    ''))
     @ collapseWhitespace
         (''Characters present: ''
          @ (if characterDetails scene catalog = [] then ''None'' else characterDetails scene catalog)
          @ ''.'')"
proof -
  let ?B = "if characterDetails scene catalog = [] then ''None'' else characterDetails scene catalog"
  let ?T = "''Characters present: '' @ ?B @ ''.''"
  let ?X = "promptModifier style @ ''. '' @ [LF]
        @ ''    Location: '' @ location scene @ ''. Time: '' @ time scene
        @ ''. Mood: '' @ mood scene @ ''. '' @ [LF] @ ''    ''"
  have raw: "basePrompt scene catalog style = trim (collapseWhitespace (?X @ ?T))"
    by (simp add: basePrompt_def)
  have hdT: "?T = [] \<or> \<not> isWhiteSpace (hd ?T)"
    by (simp add: isWhiteSpace_def)
  have split: "collapseWhitespace (?X @ ?T) = collapseWhitespace ?X @ collapseWhitespace ?T"
    by (rule collapseWhitespace_append[OF hdT])
  have dot: "collapseWhitespace ?T = collapseWhitespace (''Characters present: '' @ ?B) @ ''.''"
    using collapseWhitespace_append[of "''.''" "''Characters present: '' @ ?B"]
    by (simp add: isWhiteSpace_def)
  have ne: "collapseWhitespace ?T \<noteq> []" using dot by simp
  have lst: "\<not> isWhiteSpace (last (collapseWhitespace ?T))"
    by (simp only: dot) (simp add: isWhiteSpace_def)
  have "collapseWhitespace ?T = CHR ''C'' # collapseWhitespace (tl ?T)"
    by (simp add: isWhiteSpace_def)
  then have hd: "\<not> isWhiteSpace (hd (collapseWhitespace ?T))"
    by (simp add: isWhiteSpace_def)
  show ?thesis
    unfolding raw split by (rule trim_keeps_suffix[OF ne hd lst])
qed


text \<open>
  Claim C7, as the code has it. Each name listed on a scene is looked up in the catalog
  by comparing lower-cased names. Without a match its descriptor is the name itself.
  With a match, the first matching entry \<open>c\<close> gives the descriptor, under the catalog's
  spelling of the name: \<open>who looks like the provided image reference\<close> when \<open>c\<close> has
  a non-empty image URL, its description in parentheses otherwise. The composed prompt
  ends with \<open>Characters present:\<close>, the descriptors joined by commas and a full stop,
  with every run of white space in that text collapsed to one space; when the joined
  descriptors are empty it ends with \<open>Characters present: None.\<close> instead.
\<close>

theorem basePrompt_character_resolution:
  "(\<forall>charName \<in> set (characters scene).
       ((\<forall>c \<in> set catalog. toLowerCase (char_name c) \<noteq> toLowerCase charName)
          \<and> characterDetail catalog charName = charName)
     \<or> (\<exists>pre c post. catalog = pre @ c # post
            \<and> toLowerCase (char_name c) = toLowerCase charName
            \<and> (\<forall>x \<in> set pre. toLowerCase (char_name x) \<noteq> toLowerCase charName)
            \<and> characterDetail catalog charName =
                 (if truthy (char_imageUrl c)
                  then char_name c @ '' who looks like the provided image reference''
                  else char_name c @ '' ('' @ char_description c @ '')'')))
   \<and> characterDetails scene catalog
        = joinWith '', '' (map (characterDetail catalog) (characters scene))
   \<and> (characterDetails scene catalog \<noteq> [] \<longrightarrow>
        suffix (collapseWhitespace (''Characters present: '' @ characterDetails scene catalog @ ''.''))
          (basePrompt scene catalog style))
   \<and> (characterDetails scene catalog = [] \<longrightarrow>
        suffix ''Characters present: None.'' (basePrompt scene catalog style))"
proof (intro conjI ballI impI)
  fix charName
  assume "charName \<in> set (characters scene)"
  let ?P = "\<lambda>c. toLowerCase (char_name c) = toLowerCase charName"
  show "((\<forall>c \<in> set catalog. toLowerCase (char_name c) \<noteq> toLowerCase charName)
          \<and> characterDetail catalog charName = charName)
     \<or> (\<exists>pre c post. catalog = pre @ c # post
            \<and> toLowerCase (char_name c) = toLowerCase charName
            \<and> (\<forall>x \<in> set pre. toLowerCase (char_name x) \<noteq> toLowerCase charName)
            \<and> characterDetail catalog charName =
                 (if truthy (char_imageUrl c)
                  then char_name c @ '' who looks like the provided image reference''
                  else char_name c @ '' ('' @ char_description c @ '')''))"
  proof (cases "find ?P catalog")
    case None
    then have "\<forall>c \<in> set catalog. toLowerCase (char_name c) \<noteq> toLowerCase charName"
      by (simp add: find_None_iff)
    moreover have "characterDetail catalog charName = charName"
      using None by (simp add: characterDetail_def)
    ultimately show ?thesis by blast
  next
    case (Some c)
    from find_first_match[OF Some] obtain pre post where
      "catalog = pre @ c # post" "toLowerCase (char_name c) = toLowerCase charName"
      "\<forall>x \<in> set pre. toLowerCase (char_name x) \<noteq> toLowerCase charName" by blast
    moreover have "characterDetail catalog charName =
                 (if truthy (char_imageUrl c)
                  then char_name c @ '' who looks like the provided image reference''
                  else char_name c @ '' ('' @ char_description c @ '')'')"
      using Some by (simp add: characterDetail_def)
    ultimately show ?thesis by blast
  qed
next
  show "characterDetails scene catalog
        = joinWith '', '' (map (characterDetail catalog) (characters scene))"
    by (simp add: characterDetails_def)
next
  assume "characterDetails scene catalog \<noteq> []"
  then show "suffix (collapseWhitespace (''Characters present: '' @ characterDetails scene catalog @ ''.''))
          (basePrompt scene catalog style)"
    by (simp only: basePrompt_tail[of scene catalog style] if_False suffix_def) blast
next
  assume "characterDetails scene catalog = []"
  then have "basePrompt scene catalog style =
     dropWhile isWhiteSpace
       (collapseWhitespace
          (promptModifier style @ ''. '' @ [LF]
           @ ''    Location: '' @ location scene @ ''. Time: '' @ time scene
           @ ''. Mood: '' @ mood scene @ ''. '' @ [LF] @ ''    ''))
     @ ''Characters present: None.''"
    using basePrompt_tail[of scene catalog style] tail_literal by simp
  then show "suffix ''Characters present: None.'' (basePrompt scene catalog style)"
    unfolding suffix_def by blast
qed

lemma lower_Alice: "toLowerCase ''Alice'' = ''alice''"
  by code_simp

lemma lower_alice: "toLowerCase ''alice'' = ''alice''"
  by code_simp

lemma two_names_details:
  "characterDetails (cafeScene [''Alice'', ''Bob  Smith'']) [aliceWithPortrait]
     = ''alice who looks like the provided image reference, Bob  Smith''"
proof -
  have "toLowerCase ''Bob  Smith'' = ''bob  smith''" by code_simp
  then show ?thesis
    by (simp add: characterDetails_def characterDetail_def cafeScene_def aliceWithPortrait_def
          lower_Alice lower_alice truthy_def)
qed

theorem basePrompt_character_resolution_witness:
  "characterDetail [aliceWithPortrait] ''Alice'' = ''alice who looks like the provided image reference''
   \<and> characterDetail [aliceWithPortrait] ''Bob  Smith'' = ''Bob  Smith''
   \<and> suffix ''Characters present: alice who looks like the provided image reference, Bob Smith.''
        (basePrompt (cafeScene [''Alice'', ''Bob  Smith'']) [aliceWithPortrait] exampleStyle)
   \<and> suffix ''Characters present: None.'' (basePrompt (cafeScene [[]]) [aliceWithPortrait] exampleStyle)"
proof -
  let ?scene = "cafeScene [''Alice'', ''Bob  Smith'']"
  note inst = basePrompt_character_resolution[of ?scene "[aliceWithPortrait]" exampleStyle]
  have names: "''Alice'' \<in> set (characters ?scene)" "''Bob  Smith'' \<in> set (characters ?scene)"
    by (simp_all add: cafeScene_def)
  have lb: "toLowerCase ''Bob  Smith'' = ''bob  smith''" by code_simp
  have ma: "toLowerCase (char_name aliceWithPortrait) = toLowerCase ''Alice''"
    by (simp add: aliceWithPortrait_def lower_Alice lower_alice)
  have mb: "toLowerCase (char_name aliceWithPortrait) \<noteq> toLowerCase ''Bob  Smith''"
    by (simp add: aliceWithPortrait_def lb lower_alice)
  from inst names(1) ma
  have 1: "characterDetail [aliceWithPortrait] ''Alice'' = ''alice who looks like the provided image reference''"
    by (auto simp: Cons_eq_append_conv aliceWithPortrait_def truthy_def)
  from inst names(2) mb
  have 2: "characterDetail [aliceWithPortrait] ''Bob  Smith'' = ''Bob  Smith''"
    by (auto simp: Cons_eq_append_conv)
  have ne: "characterDetails ?scene [aliceWithPortrait] \<noteq> []"
    by (simp add: two_names_details)
  have col: "collapseWhitespace (''Characters present: '' @ characterDetails ?scene [aliceWithPortrait] @ ''.'')
      = ''Characters present: alice who looks like the provided image reference, Bob Smith.''"
    by (simp add: two_names_details isWhiteSpace_def)
  from inst ne
  have 3: "suffix ''Characters present: alice who looks like the provided image reference, Bob Smith.''
        (basePrompt ?scene [aliceWithPortrait] exampleStyle)"
    by (simp only: col) blast
  have em: "characterDetails (cafeScene [[]]) [aliceWithPortrait] = []"
    by (simp add: characterDetails_def characterDetail_def cafeScene_def aliceWithPortrait_def
          toLowerCase_def lower_alice[unfolded toLowerCase_def])
  from basePrompt_character_resolution[of "cafeScene [[]]" "[aliceWithPortrait]" exampleStyle] em
  have 4: "suffix ''Characters present: None.'' (basePrompt (cafeScene [[]]) [aliceWithPortrait] exampleStyle)"
    by blast
  from 1 2 3 4 show ?thesis by blast
qed

lemma alice_prompt:
  "basePrompt (cafeScene [''Alice'']) [aliceWithPortrait] exampleStyle =
     ''X. Location: Cafe. Time: Morning. Mood: Tense. Characters present: alice who looks like the provided image reference.''"
  by (simp add: basePrompt_def characterDetails_def characterDetail_def cafeScene_def exampleStyle_def
      aliceWithPortrait_def lower_Alice lower_alice truthy_def trim_def isWhiteSpace_def)

lemma bob_prompt:
  "basePrompt (cafeScene [''Bob  Smith'']) [] exampleStyle =
     ''X. Location: Cafe. Time: Morning. Mood: Tense. Characters present: Bob Smith.''"
  by (simp add: basePrompt_def characterDetails_def characterDetail_def cafeScene_def exampleStyle_def
      trim_def isWhiteSpace_def)

theorem basePrompt_reference_phrase_counterexample:
  "toLowerCase (char_name aliceWithPortrait) = toLowerCase ''Alice''
   \<and> truthy (char_imageUrl aliceWithPortrait)
   \<and> \<not> sublist ''matches the provided reference image''
         (basePrompt (cafeScene [''Alice'']) [aliceWithPortrait] exampleStyle)
   \<and> \<not> sublist ''Bob  Smith'' (basePrompt (cafeScene [''Bob  Smith'']) [] exampleStyle)"
proof -
  have "\<not> sublist ''matches the provided reference image''
     ''X. Location: Cafe. Time: Morning. Mood: Tense. Characters present: alice who looks like the provided image reference.''"
    by (simp add: sublist_code(3) prefix_code(3))
  moreover have "\<not> sublist ''Bob  Smith''
     ''X. Location: Cafe. Time: Morning. Mood: Tense. Characters present: Bob Smith.''"
    by (simp add: sublist_code(3) prefix_code(3))
  ultimately show ?thesis
    by (simp add: alice_prompt bob_prompt) (simp add: aliceWithPortrait_def lower_Alice lower_alice truthy_def)
qed

section \<open>Calls to the remote service through the wrapper\<close>

lemma remote_first_attempt:
  "callApiWithRetry_default rt (remoteCall endpoint req) w =
     (case endpoint (length (requests (ext w))) req of
        Inr v \<Rightarrow>
          (Inr v, w\<lparr>trace := trace w @ [Invoke],
                     ext := (ext w)\<lparr>requests := requests (ext w) @ [req]\<rparr>\<rparr>)
      | Inl e \<Rightarrow>
          if isRateLimitError rt e then
            callApiWithRetry_loop rt (remoteCall endpoint req) 5 1000 1 e
              (w\<lparr>trace := trace w @ [Invoke, Sleep (backoff 1000 0 + jitter rt (draws w))],
                 draws := draws w + 1,
                 ext := (ext w)\<lparr>requests := requests (ext w) @ [req]\<rparr>\<rparr>)
          else
            (Inl e, w\<lparr>trace := trace w @ [Invoke],
                       ext := (ext w)\<lparr>requests := requests (ext w) @ [req]\<rparr>\<rparr>))"
  unfolding callApiWithRetry_default_def callApiWithRetry_def
  by (subst callApiWithRetry_loop.simps) (simp add: remoteCall_def split: sum.splits)

lemma loop_requests:
  "n - i = m \<Longrightarrow>
   \<exists>k. k \<le> m \<and> (i < n \<longrightarrow> 1 \<le> k)
     \<and> requests (ext (snd (callApiWithRetry_loop rt (remoteCall endpoint req) n d i le w)))
         = requests (ext w) @ replicate k req
     \<and> downloads (ext (snd (callApiWithRetry_loop rt (remoteCall endpoint req) n d i le w)))
         = downloads (ext w)"
proof (induction m arbitrary: i le w)
  case 0
  then have "\<not> i < n" by simp
  then show ?case by (simp add: loop_exit)
next
  case (Suc m)
  then have lt: "i < n" and rest: "n - Suc i = m" by auto
  let ?s = "(ext w)\<lparr>requests := requests (ext w) @ [req]\<rparr>"
  obtain r where c: "remoteCall endpoint req (ext w) = (r, ?s)"
    by (simp add: remoteCall_def)
  show ?case
  proof (cases r)
    case (Inr v)
    with lt c have "callApiWithRetry_loop rt (remoteCall endpoint req) n d i le w
        = (Inr v, w\<lparr>trace := trace w @ [Invoke], ext := ?s\<rparr>)"
      using loop_ok[where apiCall="remoteCall endpoint req" and w=w] by simp
    then show ?thesis by (intro exI[of _ 1]) simp
  next
    case (Inl e)
    with c have c': "remoteCall endpoint req (ext w) = (Inl e, ?s)" by simp
    show ?thesis
    proof (cases "isRateLimitError rt e")
      case False
      with lt c' have "callApiWithRetry_loop rt (remoteCall endpoint req) n d i le w
          = (Inl e, w\<lparr>trace := trace w @ [Invoke], ext := ?s\<rparr>)"
        using loop_fatal[where apiCall="remoteCall endpoint req" and w=w] by simp
      then show ?thesis by (intro exI[of _ 1]) simp
    next
      case True
      let ?w = "w\<lparr>trace := trace w @ [Invoke, Sleep (backoff d i + jitter rt (draws w))],
                  draws := Suc (draws w), ext := ?s\<rparr>"
      have step: "callApiWithRetry_loop rt (remoteCall endpoint req) n d i le w
          = callApiWithRetry_loop rt (remoteCall endpoint req) n d (Suc i) e ?w"
        using loop_retry[where apiCall="remoteCall endpoint req" and w=w, OF lt c' True] by simp
      from Suc.IH[OF rest, of e ?w]
      obtain k where k: "k \<le> m"
        and rq: "requests (ext (snd (callApiWithRetry_loop rt (remoteCall endpoint req) n d (Suc i) e ?w)))
                  = requests (ext ?w) @ replicate k req"
        and dl: "downloads (ext (snd (callApiWithRetry_loop rt (remoteCall endpoint req) n d (Suc i) e ?w)))
                  = downloads (ext ?w)"
        by blast
      have "requests (ext ?w) @ replicate k req = requests (ext w) @ replicate (Suc k) req"
        by (simp add: replicate_app_Cons_same)
      then show ?thesis
        using k rq dl step by (intro exI[of _ "Suc k"]) simp
    qed
  qed
qed

lemma remote_requests:
  "\<exists>k. 1 \<le> k \<and> k \<le> 5
     \<and> requests (ext (snd (callApiWithRetry_default rt (remoteCall endpoint req) w)))
         = requests (ext w) @ replicate k req
     \<and> downloads (ext (snd (callApiWithRetry_default rt (remoteCall endpoint req) w)))
         = downloads (ext w)"
  unfolding callApiWithRetry_default_def callApiWithRetry_def
  using loop_requests[of 5 0 5 rt endpoint req 1000 Undefined w] by auto


section \<open>Image generation\<close>

text \<open>
  Claim C3 (the code departs from it). A call of \<open>generateImageForPrompt\<close> with one
  conditioning image, answered at once by the service, sends a single request whose only
  part is the text prompt: the conditioning image is not among the parts.
\<close>

theorem generateImageForPrompt_drops_conditioning_images:
  "js_surplus_arg (generateImageForPrompt (exampleServices None True) exampleRuntime ''p'' Ratio_16_9)
       [InlineData (Some ''QUJD'') (Some ''image/png'')] (emptyWorld noRequests)
     = (Inr ''data:image/png;base64,AAAA'',
        \<lparr>trace = [Invoke], draws = 0,
         ext = \<lparr>requests = [GenerateContent_parts ''gemini-2.5-flash-image-preview''
                               [Text ''p. Aspect ratio: 16:9.''] [IMAGE, TEXT]],
                downloads = []\<rparr>\<rparr>)"
proof -
  have r: "generateContent (exampleServices None True) (length (requests (ext (emptyWorld noRequests))))
             (imageRequest ''p'' Ratio_16_9) = Inr imageReply"
    by (simp add: exampleServices_def imageRequest_def)
  show ?thesis
    unfolding js_surplus_arg_def generateImageForPrompt_def
    using r by (simp add: remote_first_attempt)
       (simp add: imageReply_def emptyWorld_def noRequests_def imageRequest_def templ_def)
qed

lemma generateImageForPrompt_world:
  "snd (generateImageForPrompt srv rt p a w) =
     snd (callApiWithRetry_default rt (remoteCall (generateContent srv) (imageRequest p a)) w)"
  unfolding generateImageForPrompt_def
  by (auto split: prod.splits sum.splits option.splits list.splits)

lemma handleGenerateStartFrame_world:
  "snd (snd (handleGenerateStartFrame srv rt scene catalog (st, w))) =
     snd (generateImageForPrompt srv rt (prompt (startFrame st)) Ratio_16_9 w)"
  unfolding handleGenerateStartFrame_def js_surplus_arg_def
  by (auto simp: Let_def split: prod.splits sum.splits)

lemma handleGenerateStartFrame_endFrame:
  "endFrame (fst (snd (handleGenerateStartFrame srv rt scene catalog (st, w)))) = endFrame st
   \<and> isGeneratingEndFrame (fst (snd (handleGenerateStartFrame srv rt scene catalog (st, w))))
       = isGeneratingEndFrame st"
  unfolding handleGenerateStartFrame_def js_surplus_arg_def
  by (auto simp: Let_def split: prod.splits sum.splits)

text \<open>
  Claim C9. When the generation of the start frame fails, \<open>handleGenerateImages\<close> ends
  in the very state and world that the start-frame handler left: the end frame and its
  loading flag are unchanged, and the only requests sent are the attempts (at least one,
  at most five) for the start frame's prompt.
\<close>

theorem handleGenerateImages_start_failure:
  assumes "fst (handleGenerateStartFrame srv rt scene catalog (st, w)) = Inl e"
  shows "handleGenerateImages srv rt scene catalog (st, w)
           = snd (handleGenerateStartFrame srv rt scene catalog (st, w))
         \<and> endFrame (fst (handleGenerateImages srv rt scene catalog (st, w))) = endFrame st
         \<and> isGeneratingEndFrame (fst (handleGenerateImages srv rt scene catalog (st, w)))
             = isGeneratingEndFrame st
         \<and> (\<exists>k. 1 \<le> k \<and> k \<le> 5
               \<and> requests (ext (snd (handleGenerateImages srv rt scene catalog (st, w))))
                   = requests (ext w) @ replicate k (imageRequest (prompt (startFrame st)) Ratio_16_9))"
proof -
  have same: "handleGenerateImages srv rt scene catalog (st, w)
           = snd (handleGenerateStartFrame srv rt scene catalog (st, w))"
    using assms unfolding handleGenerateImages_def by (auto split: prod.splits sum.splits)
  have wd: "snd (handleGenerateImages srv rt scene catalog (st, w)) =
      snd (callApiWithRetry_default rt
             (remoteCall (generateContent srv) (imageRequest (prompt (startFrame st)) Ratio_16_9)) w)"
    by (simp add: same handleGenerateStartFrame_world generateImageForPrompt_world)
  have rq: "\<exists>k. 1 \<le> k \<and> k \<le> 5
               \<and> requests (ext (snd (handleGenerateImages srv rt scene catalog (st, w))))
                   = requests (ext w) @ replicate k (imageRequest (prompt (startFrame st)) Ratio_16_9)"
    unfolding wd
    using remote_requests[of rt "generateContent srv" "imageRequest (prompt (startFrame st)) Ratio_16_9" w]
    by blast
  have ef: "endFrame (fst (handleGenerateImages srv rt scene catalog (st, w))) = endFrame st
         \<and> isGeneratingEndFrame (fst (handleGenerateImages srv rt scene catalog (st, w)))
             = isGeneratingEndFrame st"
    unfolding same by (rule handleGenerateStartFrame_endFrame)
  from same rq ef show ?thesis by blast
qed

theorem handleGenerateImages_start_failure_witness:
  "handleGenerateImages failingServices exampleRuntime (cafeScene []) [] (initialState, emptyWorld noRequests)
     = (initialState\<lparr>card_error := Some ''Failed to generate start frame: Network down''\<rparr>,
        \<lparr>trace = [Invoke], draws = 0,
         ext = \<lparr>requests = [imageRequest [] Ratio_16_9], downloads = []\<rparr>\<rparr>)"
proof -
  have r: "generateContent failingServices (length (requests (ext (emptyWorld noRequests))))
             (imageRequest (prompt (startFrame initialState)) Ratio_16_9) = Inl (Error ''Network down'')"
    by (simp add: failingServices_def)
  have run: "handleGenerateStartFrame failingServices exampleRuntime (cafeScene []) []
               (initialState, emptyWorld noRequests)
     = (Inl (Error ''Network down''),
        initialState\<lparr>card_error := Some ''Failed to generate start frame: Network down''\<rparr>,
        \<lparr>trace = [Invoke], draws = 0,
         ext = \<lparr>requests = [imageRequest [] Ratio_16_9], downloads = []\<rparr>\<rparr>)"
    unfolding handleGenerateStartFrame_def js_surplus_arg_def generateImageForPrompt_def
    using r example_fatal by (simp add: remote_first_attempt)
       (simp add: initialState_def emptyWorld_def noRequests_def getApiErrorMessage_def
          exampleRuntime_def rateLimitMessage_def)
  then have f: "fst (handleGenerateStartFrame failingServices exampleRuntime (cafeScene []) []
               (initialState, emptyWorld noRequests)) = Inl (Error ''Network down'')"
    by simp
  show ?thesis
    using handleGenerateImages_start_failure[OF f] by (simp add: run)
qed

section \<open>Script analysis\<close>

text \<open>
  Claim C6. A script that is empty or only white space is rejected by the caller,
  \<open>handleAnalyzeScript\<close>, which reports an error and sends no request. When the
  service answers the first request with a text that is not JSON, \<open>parseScriptToScenes\<close>
  and \<open>extractCharactersFromScript\<close> fail with their parse error after that single
  request: nothing is retried.
\<close>

theorem script_analysis_failures:
  "(trim (script st) = [] \<longrightarrow>
      handleAnalyzeScript srv rt Promise_all (st, w) = (st\<lparr>app_error := Some ''Script cannot be empty.''\<rparr>, w))
   \<and> (generateContent srv (length (requests (ext w))) (scenesRequest s) = Inr response
        \<and> resp_text response = Some t \<and> JSON_parse rt (trim t) = None \<longrightarrow>
      parseScriptToScenes srv rt s w =
        (Inl (Error ''The AI returned an invalid JSON format for scenes.''),
         w\<lparr>trace := trace w @ [Invoke],
           ext := (ext w)\<lparr>requests := requests (ext w) @ [scenesRequest s]\<rparr>\<rparr>))
   \<and> (generateContent srv (length (requests (ext w))) (charactersRequest s) = Inr response
        \<and> resp_text response = Some t \<and> JSON_parse rt (trim t) = None \<longrightarrow>
      extractCharactersFromScript srv rt s w =
        (Inl (Error ''The AI returned an invalid JSON format for characters.''),
         w\<lparr>trace := trace w @ [Invoke],
           ext := (ext w)\<lparr>requests := requests (ext w) @ [charactersRequest s]\<rparr>\<rparr>))"
proof (intro conjI impI)
  assume "trim (script st) = []"
  then show "handleAnalyzeScript srv rt Promise_all (st, w) = (st\<lparr>app_error := Some ''Script cannot be empty.''\<rparr>, w)"
    by (simp add: handleAnalyzeScript_def)
next
  assume a: "generateContent srv (length (requests (ext w))) (scenesRequest s) = Inr response
        \<and> resp_text response = Some t \<and> JSON_parse rt (trim t) = None"
  then have r: "generateContent srv (length (requests (ext w))) (scenesRequest s) = Inr response" by simp
  show "parseScriptToScenes srv rt s w =
        (Inl (Error ''The AI returned an invalid JSON format for scenes.''),
         w\<lparr>trace := trace w @ [Invoke],
           ext := (ext w)\<lparr>requests := requests (ext w) @ [scenesRequest s]\<rparr>\<rparr>)"
    using a by (simp add: parseScriptToScenes_def remote_first_attempt parseResponseText_def)
next
  assume a: "generateContent srv (length (requests (ext w))) (charactersRequest s) = Inr response
        \<and> resp_text response = Some t \<and> JSON_parse rt (trim t) = None"
  then have r: "generateContent srv (length (requests (ext w))) (charactersRequest s) = Inr response" by simp
  show "extractCharactersFromScript srv rt s w =
        (Inl (Error ''The AI returned an invalid JSON format for characters.''),
         w\<lparr>trace := trace w @ [Invoke],
           ext := (ext w)\<lparr>requests := requests (ext w) @ [charactersRequest s]\<rparr>\<rparr>)"
    using a by (simp add: extractCharactersFromScript_def remote_first_attempt parseResponseText_def)
qed

theorem script_analysis_failures_witness:
  "handleAnalyzeScript (exampleServices None True) exampleRuntime settleInOrder (blankApp, emptyWorld noRequests)
     = (blankApp\<lparr>app_error := Some ''Script cannot be empty.''\<rparr>, emptyWorld noRequests)
   \<and> parseScriptToScenes (exampleServices None True) exampleRuntime ''INT. CAFE'' (emptyWorld noRequests)
     = (Inl (Error ''The AI returned an invalid JSON format for scenes.''),
        \<lparr>trace = [Invoke], draws = 0,
         ext = \<lparr>requests = [scenesRequest ''INT. CAFE''], downloads = []\<rparr>\<rparr>)
   \<and> extractCharactersFromScript (exampleServices None True) exampleRuntime ''INT. CAFE'' (emptyWorld noRequests)
     = (Inl (Error ''The AI returned an invalid JSON format for characters.''),
        \<lparr>trace = [Invoke], draws = 0,
         ext = \<lparr>requests = [charactersRequest ''INT. CAFE''], downloads = []\<rparr>\<rparr>)"
proof -
  have blank: "trim (script blankApp) = []"
    by (simp add: blankApp_def trim_def isWhiteSpace_def)
  have bad: "JSON_parse exampleRuntime (trim ''Sorry, I cannot help with that.'') = None"
    by (simp add: exampleRuntime_def rateLimitMessage_def trim_def isWhiteSpace_def)
  have r1: "generateContent (exampleServices None True) (length (requests (ext (emptyWorld noRequests))))
              (scenesRequest ''INT. CAFE'') = Inr notJsonReply"
    by (simp add: exampleServices_def scenesRequest_def)
  have r2: "generateContent (exampleServices None True) (length (requests (ext (emptyWorld noRequests))))
              (charactersRequest ''INT. CAFE'') = Inr notJsonReply"
    by (simp add: exampleServices_def charactersRequest_def)
  have t: "resp_text notJsonReply = Some ''Sorry, I cannot help with that.''"
    by (simp add: notJsonReply_def)
  have w0: "(emptyWorld noRequests)\<lparr>trace := trace (emptyWorld noRequests) @ [Invoke],
              ext := (ext (emptyWorld noRequests))\<lparr>requests := requests (ext (emptyWorld noRequests)) @ [q]\<rparr>\<rparr>
            = \<lparr>trace = [Invoke], draws = 0, ext = \<lparr>requests = [q], downloads = []\<rparr>\<rparr>" for q
    by (simp add: emptyWorld_def noRequests_def)
  from script_analysis_failures[of blankApp "exampleServices None True" exampleRuntime settleInOrder
         "emptyWorld noRequests" "''INT. CAFE''" notJsonReply "''Sorry, I cannot help with that.''"]
  show ?thesis
    using blank bad r1 r2 t by (simp only: w0 simp_thms)
qed

section \<open>Video generation\<close>

lemma pollLoop_done: "op_done operation \<Longrightarrow> pollLoop srv rt operation w = Some (Inr operation, w)"
  by (subst pollLoop.simps) simp

lemma pollLoop_step:
  "\<not> op_done operation \<Longrightarrow>
   pollLoop srv rt operation w =
     (case callApiWithRetry_default rt
             (remoteCall (getVideosOperation srv) (GetVideosOperation operation))
             (w\<lparr>trace := trace w @ [Sleep 10000]\<rparr>) of
        (Inl e, w') \<Rightarrow> Some (Inl e, w')
      | (Inr operation', w') \<Rightarrow> pollLoop srv rt operation' w')"
  by (subst pollLoop.simps) simp

lemma downloadVideo_requests: "requests (ext (snd (downloadVideo srv operation w))) = requests (ext w)"
  unfolding downloadVideo_def by (auto simp: Let_def split: sum.splits)

lemma splitOn_first_separator:
  "c \<notin> set h \<Longrightarrow> splitOn c (h @ c # r) = h # splitOn c r"
  by (induction h) (auto split: list.splits)

lemma splitOn_head: "\<exists>ps. splitOn c r = takeWhile (\<lambda>x. x \<noteq> c) r # ps"
  by (induction r) (auto split: list.splits)

lemma generateVideosRequest_segment:
  assumes "CHR '','' \<notin> set header"
  shows "generateVideosRequest p (header @ '','' @ rest)
           = GenerateVideos ''veo-2.0-generate-001'' p
               (Some (takeWhile (\<lambda>c. c \<noteq> CHR '','') rest)) ''image/png'' 1"
proof -
  obtain ps where "splitOn (CHR '','') rest = takeWhile (\<lambda>x. x \<noteq> CHR '','') rest # ps"
    using splitOn_head by blast
  then show ?thesis
    using splitOn_first_separator[OF assms, of rest]
    by (simp add: generateVideosRequest_def at_index_def)
qed

lemma pollLoop_upto_sound:
  "pollLoop_upto n srv rt operation w = (Some r, w') \<Longrightarrow> pollLoop srv rt operation w = Some (r, w')"
proof (induction n arbitrary: operation w)
  case 0
  then show ?case by (auto simp: pollLoop_done split: if_splits)
next
  case (Suc n)
  show ?case
  proof (cases "op_done operation")
    case True
    with Suc.prems show ?thesis by (auto simp: pollLoop_done)
  next
    case False
    obtain a w1 where c: "callApiWithRetry_default rt
                (remoteCall (getVideosOperation srv) (GetVideosOperation operation))
                (w\<lparr>trace := trace w @ [Sleep 10000]\<rparr>) = (a, w1)"
      by (cases "callApiWithRetry_default rt
                (remoteCall (getVideosOperation srv) (GetVideosOperation operation))
                (w\<lparr>trace := trace w @ [Sleep 10000]\<rparr>)")
    show ?thesis
    proof (cases a)
      case (Inl e)
      with Suc.prems False c show ?thesis by (auto simp: pollLoop_step)
    next
      case (Inr operation')
      with Suc.prems False c have "pollLoop_upto n srv rt operation' w1 = (Some r, w')" by simp
      from Suc.IH[OF this] show ?thesis using False c Inr by (simp add: pollLoop_step)
    qed
  qed
qed

lemma pollLoop_upto_complete:
  assumes major: "pollLoop srv rt operation w = Some y"
  shows "\<exists>n. pollLoop_upto n srv rt operation w = (Some (fst y), snd y)"
proof (rule pollLoop.raw_induct[where P = "\<lambda>srv rt operation w y.
         \<exists>n. pollLoop_upto n srv rt operation w = (Some (fst y), snd y)"
         and srv = srv and rt = rt and operation = operation and w = w and y = y], goal_cases)
  case (1 f srv rt operation w y)
  show ?case
  proof (cases "op_done operation")
    case True
    with 1(2) have "pollLoop_upto 0 srv rt operation w = (Some (fst y), snd y)" by auto
    then show ?thesis by blast
  next
    case False
    obtain a w1 where c: "callApiWithRetry_default rt
                (remoteCall (getVideosOperation srv) (GetVideosOperation operation))
                (w\<lparr>trace := trace w @ [Sleep 10000]\<rparr>) = (a, w1)"
      by (cases "callApiWithRetry_default rt
                (remoteCall (getVideosOperation srv) (GetVideosOperation operation))
                (w\<lparr>trace := trace w @ [Sleep 10000]\<rparr>)")
    show ?thesis
    proof (cases a)
      case (Inl e)
      with 1(2) False c have "pollLoop_upto (Suc 0) srv rt operation w = (Some (fst y), snd y)" by auto
      then show ?thesis by blast
    next
      case (Inr operation')
      with 1(2) False c have "f srv rt operation' w1 = Some y" by simp
      from 1(1)[OF this] obtain n where "pollLoop_upto n srv rt operation' w1 = (Some (fst y), snd y)"
        by blast
      with False c Inr have "pollLoop_upto (Suc n) srv rt operation w = (Some (fst y), snd y)" by simp
      then show ?thesis by blast
    qed
  qed
next
  case 2
  show ?case by (rule major)
qed

lemma pollLoop_upto_requests:
  "\<exists>more. requests (ext (snd (pollLoop_upto n srv rt operation w))) = requests (ext w) @ more
        \<and> (\<forall>q \<in> set more. \<exists>operation'. q = GetVideosOperation operation')"
proof (induction n arbitrary: operation w)
  case 0
  then show ?case by simp
next
  case (Suc n)
  show ?case
  proof (cases "op_done operation")
    case True
    then show ?thesis by simp
  next
    case False
    let ?r = "callApiWithRetry_default rt
                 (remoteCall (getVideosOperation srv) (GetVideosOperation operation))
                 (w\<lparr>trace := trace w @ [Sleep 10000]\<rparr>)"
    from remote_requests[of rt "getVideosOperation srv" "GetVideosOperation operation"
           "w\<lparr>trace := trace w @ [Sleep 10000]\<rparr>"]
    obtain k where k: "requests (ext (snd ?r)) = requests (ext w) @ replicate k (GetVideosOperation operation)"
      by auto
    obtain a w1 where r: "?r = (a, w1)" by (cases ?r)
    with k have k': "requests (ext w1) = requests (ext w) @ replicate k (GetVideosOperation operation)"
      by simp
    show ?thesis
    proof (cases a)
      case (Inl e)
      with False r k' show ?thesis by auto
    next
      case (Inr operation')
      from Suc.IH[of operation' w1] obtain more where
        "requests (ext (snd (pollLoop_upto n srv rt operation' w1))) = requests (ext w1) @ more"
        "\<forall>q \<in> set more. \<exists>operation'. q = GetVideosOperation operation'" by blast
      with k' have "requests (ext (snd (pollLoop_upto n srv rt operation' w1)))
            = requests (ext w) @ (replicate k (GetVideosOperation operation) @ more)
          \<and> (\<forall>q \<in> set (replicate k (GetVideosOperation operation) @ more).
                \<exists>operation'. q = GetVideosOperation operation')"
        by auto
      with False r Inr show ?thesis by (auto simp del: append_assoc)
    qed
  qed
qed

lemma generateVideoForScene_upto_requests:
  "\<exists>k more. 1 \<le> k \<and> k \<le> 5
     \<and> requests (ext (snd (generateVideoForScene_upto n srv rt p u w)))
          = requests (ext w) @ replicate k (generateVideosRequest p u) @ more
     \<and> (\<forall>q \<in> set more. \<exists>operation. q = GetVideosOperation operation)"
proof -
  let ?q = "generateVideosRequest p u"
  let ?c = "callApiWithRetry_default rt (remoteCall (generateVideos srv) ?q) w"
  from remote_requests[of rt "generateVideos srv" ?q w]
  obtain k where k: "1 \<le> k" "k \<le> 5" "requests (ext (snd ?c)) = requests (ext w) @ replicate k ?q"
    by blast
  obtain a w1 where c: "?c = (a, w1)" by (cases ?c)
  with k have k': "requests (ext w1) = requests (ext w) @ replicate k ?q" by simp
  have "\<exists>more. requests (ext (snd (generateVideoForScene_upto n srv rt p u w))) = requests (ext w1) @ more
          \<and> (\<forall>q \<in> set more. \<exists>operation. q = GetVideosOperation operation)"
  proof (cases a)
    case (Inl e)
    with c show ?thesis by (simp add: generateVideoForScene_upto_def)
  next
    case (Inr operation)
    from pollLoop_upto_requests[of n srv rt operation w1] obtain more where
      more: "requests (ext (snd (pollLoop_upto n srv rt operation w1))) = requests (ext w1) @ more"
            "\<forall>q \<in> set more. \<exists>operation'. q = GetVideosOperation operation'" by blast
    have "requests (ext (snd (generateVideoForScene_upto n srv rt p u w)))
            = requests (ext (snd (pollLoop_upto n srv rt operation w1)))"
      using c Inr
      by (auto simp: generateVideoForScene_upto_def downloadVideo_requests
               split: prod.splits option.splits sum.splits
               dest: arg_cong[where f = "\<lambda>x. requests (ext (snd x))"])
    with more show ?thesis by auto
  qed
  then obtain more where "requests (ext (snd (generateVideoForScene_upto n srv rt p u w))) = requests (ext w1) @ more"
    "\<forall>q \<in> set more. \<exists>operation. q = GetVideosOperation operation" by blast
  with k k' show ?thesis by auto
qed

lemma generateVideoForScene_upto_iff:
  "generateVideoForScene srv rt p u w = Some (r, w')
     \<longleftrightarrow> (\<exists>n. generateVideoForScene_upto n srv rt p u w = (Some r, w'))"
proof -
  let ?c = "callApiWithRetry_default rt (remoteCall (generateVideos srv) (generateVideosRequest p u)) w"
  obtain a w1 where c: "?c = (a, w1)" by (cases ?c)
  show ?thesis
  proof (cases a)
    case (Inl e)
    with c show ?thesis
      by (auto simp: generateVideoForScene_def generateVideoForScene_upto_def)
  next
    case (Inr operation)
    show ?thesis
    proof
      assume run: "generateVideoForScene srv rt p u w = Some (r, w')"
      with c Inr obtain y where y: "pollLoop srv rt operation w1 = Some y"
        by (cases "pollLoop srv rt operation w1") (auto simp: generateVideoForScene_def)
      from pollLoop_upto_complete[OF y] obtain n where
        n: "pollLoop_upto n srv rt operation w1 = (Some (fst y), snd y)" by blast
      have "generateVideoForScene_upto n srv rt p u w = (Some r, w')"
        using run c Inr y n
        by (cases y; cases "fst y")
           (auto simp: generateVideoForScene_def generateVideoForScene_upto_def split: prod.splits)
      then show "\<exists>n. generateVideoForScene_upto n srv rt p u w = (Some r, w')" by blast
    next
      assume "\<exists>n. generateVideoForScene_upto n srv rt p u w = (Some r, w')"
      then obtain n where n: "generateVideoForScene_upto n srv rt p u w = (Some r, w')" by blast
      obtain b w2 where pl: "pollLoop_upto n srv rt operation w1 = (b, w2)"
        by (cases "pollLoop_upto n srv rt operation w1")
      from n c Inr pl obtain x where b: "b = Some x"
        by (cases b) (auto simp: generateVideoForScene_upto_def)
      from pollLoop_upto_sound[OF pl[unfolded b]] have "pollLoop srv rt operation w1 = Some (x, w2)" .
      with n c Inr pl b show "generateVideoForScene srv rt p u w = Some (r, w')"
        by (cases x) (auto simp: generateVideoForScene_def generateVideoForScene_upto_def split: prod.splits)
    qed
  qed
qed


text \<open>
  Claim C10, as the code has it. The job submission carries as image bytes the text
  between the first comma of the start frame and the next comma, or the end when there
  is none (so for base64 text, which has no comma, everything after the first comma),
  and declares them \<open>image/png\<close> whatever the header says. In every run of
  \<open>generateVideoForScene\<close>, however long it has been polling, the requests sent so far
  are the attempts (at least one, at most five) of that submission, followed only by
  status queries; and the runs that end are exactly the results of
  \<open>generateVideoForScene\<close>.
\<close>

theorem generateVideoForScene_seed_image:
  assumes "CHR '','' \<notin> set header"
  shows "generateVideosRequest p (header @ '','' @ rest)
           = GenerateVideos ''veo-2.0-generate-001'' p
               (Some (takeWhile (\<lambda>c. c \<noteq> CHR '','') rest)) ''image/png'' 1
         \<and> (\<forall>n. \<exists>k more. 1 \<le> k \<and> k \<le> 5
                \<and> requests (ext (snd (generateVideoForScene_upto n srv rt p (header @ '','' @ rest) w)))
                     = requests (ext w)
                       @ replicate k (GenerateVideos ''veo-2.0-generate-001'' p
                                        (Some (takeWhile (\<lambda>c. c \<noteq> CHR '','') rest)) ''image/png'' 1)
                       @ more
                \<and> (\<forall>q \<in> set more. \<exists>operation. q = GetVideosOperation operation))
         \<and> (generateVideoForScene srv rt p (header @ '','' @ rest) w = Some (r, w')
              \<longleftrightarrow> (\<exists>n. generateVideoForScene_upto n srv rt p (header @ '','' @ rest) w = (Some r, w')))"
proof (intro conjI allI)
  have req: "generateVideosRequest p (header @ '','' @ rest)
           = GenerateVideos ''veo-2.0-generate-001'' p
               (Some (takeWhile (\<lambda>c. c \<noteq> CHR '','') rest)) ''image/png'' 1"
    by (rule generateVideosRequest_segment[OF assms])
  then show "generateVideosRequest p (header @ '','' @ rest)
           = GenerateVideos ''veo-2.0-generate-001'' p
               (Some (takeWhile (\<lambda>c. c \<noteq> CHR '','') rest)) ''image/png'' 1" .
  fix n
  show "\<exists>k more. 1 \<le> k \<and> k \<le> 5
                \<and> requests (ext (snd (generateVideoForScene_upto n srv rt p (header @ '','' @ rest) w)))
                     = requests (ext w)
                       @ replicate k (GenerateVideos ''veo-2.0-generate-001'' p
                                        (Some (takeWhile (\<lambda>c. c \<noteq> CHR '','') rest)) ''image/png'' 1)
                       @ more
                \<and> (\<forall>q \<in> set more. \<exists>operation. q = GetVideosOperation operation)"
    using generateVideoForScene_upto_requests[of n srv rt p "header @ '','' @ rest" w]
    by (simp only: req)
next
  show "generateVideoForScene srv rt p (header @ '','' @ rest) w = Some (r, w')
              \<longleftrightarrow> (\<exists>n. generateVideoForScene_upto n srv rt p (header @ '','' @ rest) w = (Some r, w'))"
    by (rule generateVideoForScene_upto_iff)
qed

lemma generateVideoForScene_three_observations:
  assumes o0: "generateVideos srv (length (requests (ext w))) (generateVideosRequest p img) = Inr op0"
      and n0: "\<not> op_done op0"
      and o1: "getVideosOperation srv (Suc (length (requests (ext w)))) (GetVideosOperation op0) = Inr op1"
      and n1: "\<not> op_done op1"
      and o2: "getVideosOperation srv (Suc (Suc (length (requests (ext w))))) (GetVideosOperation op1) = Inr op2"
      and d2: "op_done op2"
  shows "generateVideoForScene srv rt p img w =
           Some (downloadVideo srv op2
                   (w\<lparr>trace := trace w @ [Invoke, Sleep 10000, Invoke, Sleep 10000, Invoke],
                      ext := (ext w)\<lparr>requests := requests (ext w) @
                                [generateVideosRequest p img, GetVideosOperation op0, GetVideosOperation op1]\<rparr>\<rparr>))"
proof -
  let ?w1 = "w\<lparr>trace := trace w @ [Invoke],
               ext := (ext w)\<lparr>requests := requests (ext w) @ [generateVideosRequest p img]\<rparr>\<rparr>"
  let ?w2 = "w\<lparr>trace := trace w @ [Invoke, Sleep 10000, Invoke],
               ext := (ext w)\<lparr>requests := requests (ext w) @
                        [generateVideosRequest p img, GetVideosOperation op0]\<rparr>\<rparr>"
  let ?w3 = "w\<lparr>trace := trace w @ [Invoke, Sleep 10000, Invoke, Sleep 10000, Invoke],
               ext := (ext w)\<lparr>requests := requests (ext w) @
                        [generateVideosRequest p img, GetVideosOperation op0, GetVideosOperation op1]\<rparr>\<rparr>"
  have s0: "callApiWithRetry_default rt (remoteCall (generateVideos srv) (generateVideosRequest p img)) w
              = (Inr op0, ?w1)"
    using o0 by (simp add: remote_first_attempt)
  have s1: "callApiWithRetry_default rt (remoteCall (getVideosOperation srv) (GetVideosOperation op0))
              (?w1\<lparr>trace := trace ?w1 @ [Sleep 10000]\<rparr>) = (Inr op1, ?w2)"
    using o1 by (simp add: remote_first_attempt)
  have s2: "callApiWithRetry_default rt (remoteCall (getVideosOperation srv) (GetVideosOperation op1))
              (?w2\<lparr>trace := trace ?w2 @ [Sleep 10000]\<rparr>) = (Inr op2, ?w3)"
    using o2 by (simp add: remote_first_attempt)
  have p2: "pollLoop srv rt op2 ?w3 = Some (Inr op2, ?w3)"
    using d2 by (rule pollLoop_done)
  have p1: "pollLoop srv rt op1 ?w2 = Some (Inr op2, ?w3)"
    by (subst pollLoop_step[OF n1]) (simp only: s2 prod.case sum.case p2)
  have p0: "pollLoop srv rt op0 ?w1 = Some (Inr op2, ?w3)"
    by (subst pollLoop_step[OF n0]) (simp only: s1 prod.case sum.case p1)
  show ?thesis
    unfolding generateVideoForScene_def
    by (simp only: s0 prod.case sum.case p0 option.case)
qed



lemma example_observations:
  "generateVideos (exampleServices uri fetchOk) (length (requests (ext (emptyWorld noRequests)))) q = Inr pending"
  "\<not> op_done pending"
  "getVideosOperation (exampleServices uri fetchOk) (Suc (length (requests (ext (emptyWorld noRequests))))) q'
     = Inr pending"
  "getVideosOperation (exampleServices uri fetchOk) (Suc (Suc (length (requests (ext (emptyWorld noRequests)))))) q''
     = Inr (completed uri)"
  "op_done (completed uri)"
  by (simp_all add: exampleServices_def pending_def completed_def emptyWorld_def noRequests_def)

lemma example_ready:
  "imageUrl (startFrame readyState) = Some ''data:image/jpeg;base64,AAAA''"
  "''data:image/jpeg;base64,AAAA'' \<noteq> []"
  "status (videoState readyState) = IDLE"
  "videoLog readyState = []"
  by (simp_all add: readyState_def initialState_def)


lemma failed_download_run:
  "generateVideoForScene (exampleServices (Some videoUri) False) exampleRuntime p
       ''data:image/jpeg;base64,AAAA'' (emptyWorld noRequests)
     = Some (Inl (Error ''Failed to download the generated video file.''),
             \<lparr>trace = [Invoke, Sleep 10000, Invoke, Sleep 10000, Invoke], draws = 0,
              ext = \<lparr>requests = [generateVideosRequest p ''data:image/jpeg;base64,AAAA'',
                                  GetVideosOperation pending, GetVideosOperation pending],
                     downloads = [videoUri @ ''&key=KEY'']\<rparr>\<rparr>)"
  by (simp only: generateVideoForScene_three_observations[OF example_observations(1,2,3,2,4,5)])
     (simp add: downloadVideo_def completed_def truthy_def templ_def exampleServices_def
        emptyWorld_def noRequests_def videoUri_def)

lemma failed_download_handler:
  "handleGenerateVideo (exampleServices (Some videoUri) False) exampleRuntime (cafeScene [])
           (readyState, emptyWorld noRequests)
        = Some (setVideoState \<lparr>status = ERROR, url = None, message = []\<rparr>
                  ((setVideoState generating readyState)
                     \<lparr>card_error := Some (''Failed to download the generated video file.''
                         @ '' This is an experimental feature and may fail. Please try again.'')\<rparr>),
                \<lparr>trace = [Invoke, Sleep 10000, Invoke, Sleep 10000, Invoke], draws = 0,
                 ext = \<lparr>requests = [generateVideosRequest (videoPrompt (cafeScene []))
                                      ''data:image/jpeg;base64,AAAA'',
                                     GetVideosOperation pending, GetVideosOperation pending],
                        downloads = [videoUri @ ''&key=KEY'']\<rparr>\<rparr>)"
  unfolding handleGenerateVideo_def
  by (simp add: example_ready truthy_def templ_def failed_download_run generating_def
        VIDEO_GENERATION_MESSAGES_def)


lemma two_comma_run:
  "generateVideoForScene (exampleServices (Some videoUri) True) exampleRuntime ''p''
       ''data:image/png;base64,AA,BB'' (emptyWorld noRequests)
     = Some (Inr ''blob:VIDEO'',
             \<lparr>trace = [Invoke, Sleep 10000, Invoke, Sleep 10000, Invoke], draws = 0,
              ext = \<lparr>requests = [GenerateVideos ''veo-2.0-generate-001'' ''p'' (Some ''AA'') ''image/png'' 1,
                                  GetVideosOperation pending, GetVideosOperation pending],
                     downloads = [videoUri @ ''&key=KEY'']\<rparr>\<rparr>)"
  by (simp only: generateVideoForScene_three_observations[OF example_observations(1,2,3,2,4,5)])
     (simp add: downloadVideo_def completed_def truthy_def templ_def exampleServices_def
        emptyWorld_def noRequests_def videoUri_def generateVideosRequest_def at_index_def)

theorem generateVideoForScene_seed_image_counterexample:
  "tl (dropWhile ((\<noteq>) (CHR '','')) ''data:image/png;base64,AA,BB'') = ''AA,BB''
   \<and> generateVideoForScene (exampleServices (Some videoUri) True) exampleRuntime ''p''
       ''data:image/png;base64,AA,BB'' (emptyWorld noRequests)
     = Some (Inr ''blob:VIDEO'',
             \<lparr>trace = [Invoke, Sleep 10000, Invoke, Sleep 10000, Invoke], draws = 0,
              ext = \<lparr>requests = [GenerateVideos ''veo-2.0-generate-001'' ''p'' (Some ''AA'') ''image/png'' 1,
                                  GetVideosOperation pending, GetVideosOperation pending],
                     downloads = [videoUri @ ''&key=KEY'']\<rparr>\<rparr>)"
  by (simp add: two_comma_run)

theorem generateVideoForScene_seed_image_witness:
  "generateVideosRequest ''Animate'' ''data:image/jpeg;base64,AAAA''
     = GenerateVideos ''veo-2.0-generate-001'' ''Animate'' (Some ''AAAA'') ''image/png'' 1
   \<and> (\<exists>k more. 1 \<le> k \<and> k \<le> 5
         \<and> requests (ext (snd (generateVideoForScene_upto 1 (exampleServices (Some videoUri) False)
               exampleRuntime ''Animate'' ''data:image/jpeg;base64,AAAA'' (emptyWorld noRequests))))
            = replicate k (GenerateVideos ''veo-2.0-generate-001'' ''Animate'' (Some ''AAAA'') ''image/png'' 1)
              @ more
         \<and> (\<forall>q \<in> set more. \<exists>operation. q = GetVideosOperation operation))
   \<and> (\<exists>n. generateVideoForScene_upto n (exampleServices (Some videoUri) False) exampleRuntime
              ''Animate'' ''data:image/jpeg;base64,AAAA'' (emptyWorld noRequests)
          = (Some (Inl (Error ''Failed to download the generated video file.'')),
             \<lparr>trace = [Invoke, Sleep 10000, Invoke, Sleep 10000, Invoke], draws = 0,
              ext = \<lparr>requests = [generateVideosRequest ''Animate'' ''data:image/jpeg;base64,AAAA'',
                                  GetVideosOperation pending, GetVideosOperation pending],
                     downloads = [videoUri @ ''&key=KEY'']\<rparr>\<rparr>))"
proof -
  have h: "CHR '','' \<notin> set ''data:image/jpeg;base64''" by simp
  have u: "''data:image/jpeg;base64'' @ '','' @ ''AAAA'' = ''data:image/jpeg;base64,AAAA''" by simp
  have t: "takeWhile (\<lambda>c. c \<noteq> CHR '','') ''AAAA'' = ''AAAA''" by simp
  have e: "requests (ext (emptyWorld noRequests)) = []" by (simp add: emptyWorld_def noRequests_def)
  note inst = generateVideoForScene_seed_image[OF h,
         where p = "''Animate''" and rest = "''AAAA''" and srv = "exampleServices (Some videoUri) False"
           and rt = exampleRuntime and w = "emptyWorld noRequests"
           and r = "Inl (Error ''Failed to download the generated video file.'')"
           and w' = "\<lparr>trace = [Invoke, Sleep 10000, Invoke, Sleep 10000, Invoke], draws = 0,
              ext = \<lparr>requests = [generateVideosRequest ''Animate'' ''data:image/jpeg;base64,AAAA'',
                                  GetVideosOperation pending, GetVideosOperation pending],
                     downloads = [videoUri @ ''&key=KEY'']\<rparr>\<rparr>",
         unfolded u t e append_Nil]
  from inst have 1: "generateVideosRequest ''Animate'' ''data:image/jpeg;base64,AAAA''
     = GenerateVideos ''veo-2.0-generate-001'' ''Animate'' (Some ''AAAA'') ''image/png'' 1" by blast
  from inst have 2: "\<exists>k more. 1 \<le> k \<and> k \<le> 5
         \<and> requests (ext (snd (generateVideoForScene_upto 1 (exampleServices (Some videoUri) False)
               exampleRuntime ''Animate'' ''data:image/jpeg;base64,AAAA'' (emptyWorld noRequests))))
            = replicate k (GenerateVideos ''veo-2.0-generate-001'' ''Animate'' (Some ''AAAA'') ''image/png'' 1)
              @ more
         \<and> (\<forall>q \<in> set more. \<exists>operation. q = GetVideosOperation operation)" by blast
  from inst failed_download_run[of "''Animate''"]
  have 3: "\<exists>n. generateVideoForScene_upto n (exampleServices (Some videoUri) False) exampleRuntime
              ''Animate'' ''data:image/jpeg;base64,AAAA'' (emptyWorld noRequests)
          = (Some (Inl (Error ''Failed to download the generated video file.'')),
             \<lparr>trace = [Invoke, Sleep 10000, Invoke, Sleep 10000, Invoke], draws = 0,
              ext = \<lparr>requests = [generateVideosRequest ''Animate'' ''data:image/jpeg;base64,AAAA'',
                                  GetVideosOperation pending, GetVideosOperation pending],
                     downloads = [videoUri @ ''&key=KEY'']\<rparr>\<rparr>)" by blast
  from 1 2 3 show ?thesis by blast
qed

section \<open>The video state\<close>

text \<open>
  Claim C5. Without a start-frame image \<open>handleGenerateVideo\<close> returns at once with an
  error message, leaving the video state, the world and every other field as they were.
  Whenever it returns, every value it has passed to \<open>setVideoState\<close> satisfies the
  invariant: \<open>DONE\<close> comes with a URL and \<open>ERROR\<close> with none; and the video state is
  the last value set, if any.
\<close>

theorem handleGenerateVideo_invariant:
  "(\<not> truthy (imageUrl (startFrame st)) \<longrightarrow>
      handleGenerateVideo srv rt scene (st, w)
        = Some (st\<lparr>card_error := Some ''Please generate the start frame image first.''\<rparr>, w))
   \<and> (handleGenerateVideo srv rt scene (st, w) = Some (st', w') \<longrightarrow>
        (\<exists>new. videoLog st' = videoLog st @ new
           \<and> (\<forall>v \<in> set new. videoInvariant v)
           \<and> videoState st' = last (videoState st # new)))"
proof (intro conjI impI)
  assume "\<not> truthy (imageUrl (startFrame st))"
  then show "handleGenerateVideo srv rt scene (st, w)
        = Some (st\<lparr>card_error := Some ''Please generate the start frame image first.''\<rparr>, w)"
    by (simp add: handleGenerateVideo_def)
next
  assume run: "handleGenerateVideo srv rt scene (st, w) = Some (st', w')"
  let ?g = "\<lparr>status = GENERATING, url = None, message = VIDEO_GENERATION_MESSAGES ! 0\<rparr>"
  show "\<exists>new. videoLog st' = videoLog st @ new
           \<and> (\<forall>v \<in> set new. videoInvariant v)
           \<and> videoState st' = last (videoState st # new)"
  proof (cases "truthy (imageUrl (startFrame st))")
    case False
    with run have "st' = st\<lparr>card_error := Some ''Please generate the start frame image first.''\<rparr>"
      by (simp add: handleGenerateVideo_def)
    then show ?thesis by (intro exI[of _ "[]"]) simp
  next
    case True
    from run True obtain r where
      g: "generateVideoForScene srv rt (videoPrompt scene) (templ (imageUrl (startFrame st))) w = Some (r, w')"
      unfolding handleGenerateVideo_def
      by (auto simp: Let_def split: option.splits prod.splits sum.splits)
    show ?thesis
    proof (cases r)
      case (Inr videoUrl)
      with run True g have "st' = setVideoState \<lparr>status = DONE, url = Some videoUrl, message = []\<rparr>
                                    ((setVideoState ?g st)\<lparr>card_error := None\<rparr>)"
        unfolding handleGenerateVideo_def by (simp add: Let_def)
      then show ?thesis
        by (intro exI[of _ "[?g, \<lparr>status = DONE, url = Some videoUrl, message = []\<rparr>]"])
           (simp add: setVideoState_def videoInvariant_def)
    next
      case (Inl err)
      with run True g have "videoLog st' = videoLog st @ [?g, \<lparr>status = ERROR, url = None, message = []\<rparr>]
          \<and> videoState st' = \<lparr>status = ERROR, url = None, message = []\<rparr>"
        unfolding handleGenerateVideo_def by (auto simp: Let_def setVideoState_def)
      then show ?thesis
        by (intro exI[of _ "[?g, \<lparr>status = ERROR, url = None, message = []\<rparr>]"])
           (simp add: videoInvariant_def)
    qed
  qed
qed

theorem handleGenerateVideo_invariant_witness:
  "handleGenerateVideo (exampleServices (Some videoUri) False) exampleRuntime (cafeScene [])
       (initialState, emptyWorld noRequests)
     = Some (initialState\<lparr>card_error := Some ''Please generate the start frame image first.''\<rparr>,
             emptyWorld noRequests)
   \<and> (\<exists>new. videoInvariant (last new)
        \<and> map_option (videoLog \<circ> fst)
             (handleGenerateVideo (exampleServices (Some videoUri) False) exampleRuntime (cafeScene [])
                (readyState, emptyWorld noRequests)) = Some new
        \<and> map status new = [GENERATING, ERROR])"
proof -
  have n: "\<not> truthy (imageUrl (startFrame initialState))"
    by (simp add: initialState_def truthy_def)
  obtain st' w' where run: "handleGenerateVideo (exampleServices (Some videoUri) False) exampleRuntime
      (cafeScene []) (readyState, emptyWorld noRequests) = Some (st', w')"
    using failed_download_handler by blast
  from handleGenerateVideo_invariant[of initialState "exampleServices (Some videoUri) False" exampleRuntime
         "cafeScene []" "emptyWorld noRequests"] n
  have 1: "handleGenerateVideo (exampleServices (Some videoUri) False) exampleRuntime (cafeScene [])
       (initialState, emptyWorld noRequests)
     = Some (initialState\<lparr>card_error := Some ''Please generate the start frame image first.''\<rparr>,
             emptyWorld noRequests)"
    by blast
  from handleGenerateVideo_invariant[of readyState "exampleServices (Some videoUri) False" exampleRuntime
         "cafeScene []" "emptyWorld noRequests" st' w'] run
  obtain new where new: "videoLog st' = videoLog readyState @ new" "\<forall>v \<in> set new. videoInvariant v"
    "videoState st' = last (videoState readyState # new)"
    by blast
  have lg: "videoLog st' = [generating, \<lparr>status = ERROR, url = None, message = []\<rparr>]"
    using run by (auto simp: failed_download_handler setVideoState_def example_ready)
  with new have n2: "new = [generating, \<lparr>status = ERROR, url = None, message = []\<rparr>]"
    by (simp add: example_ready)
  with new(2) have "videoInvariant (last new)" by simp
  moreover have "map status new = [GENERATING, ERROR]"
    using n2 by (simp add: generating_def)
  moreover have "map_option (videoLog \<circ> fst)
             (handleGenerateVideo (exampleServices (Some videoUri) False) exampleRuntime (cafeScene [])
                (readyState, emptyWorld noRequests)) = Some new"
    using run lg n2 by simp
  ultimately show ?thesis using 1 by (intro conjI exI[of _ new])
qed

end
